theory Spec2Isabelle
  imports Complex_Main "HOL-Library.Signed_Division"
begin

chapter \<open>PiTrac: configuration store, calibrator, flight-capture FSM, neural detector, trajectory\<close>

text \<open>
  Shallow embedding of the parts of the PiTrac launch-monitor sources that the checked
  properties are about. Conventions used throughout:
  \<^item> C++ \<open>float\<close> and \<open>double\<close> values are modelled as \<^typ>\<open>real\<close>: no NaN, no
    infinities. In the letterbox geometry of the detector and where the configuration
    store prints and reads back a float, the rounding to binary32 is written out, because
    there it changes an integer or a text; elsewhere the arithmetic is exact.
  \<^item> C++ \<open>int\<close>, \<open>long\<close> and \<open>size_t\<close> values are modelled as \<^typ>\<open>int\<close> or \<^typ>\<open>nat\<close>.
    In the quiesce time of the flight-capture loop, where a product of \<open>int\<close>s may not fit
    into 32 bits, the wrap-around is written out.
  \<^item> Calls into code that is not part of these sources (OpenCV, the ONNX runtime, the
    physics library, the camera framework) appear as parameters that carry the answer the
    callee gave.
  \<^item> An exception is a value: \<open>Inl\<close> of a sum type, or \<open>None\<close>.
\<close>

section \<open>Common\<close>

text \<open>\<open>std::optional::value_or\<close>.\<close>

definition value_or :: "'a option \<Rightarrow> 'a \<Rightarrow> 'a" where
  "value_or v d = (case v of Some x \<Rightarrow> x | None \<Rightarrow> d)"

text \<open>\<open>static_cast<int>\<close> of a floating-point value drops the fraction.\<close>

definition static_cast_int :: "real \<Rightarrow> int" where
  "static_cast_int x = (if x \<ge> 0 then \<lfloor>x\<rfloor> else \<lceil>x\<rceil>)"

text \<open>
  The value a 32-bit \<open>int\<close> holds after an addition or multiplication whose exact result
  is \<open>x\<close>: the result wraps around modulo \<open>2\<^sup>3\<^sup>2\<close> into the range from \<open>INT_MIN\<close> to
  \<open>INT_MAX\<close>. (The C++ standard leaves signed overflow undefined; this is what the
  machine instruction computes.)
\<close>

definition INT_MIN :: int where "INT_MIN = - 2147483648"
definition INT_MAX :: int where "INT_MAX = 2147483647"

definition int32 :: "int \<Rightarrow> int" where
  "int32 x = (x + 2147483648) mod 4294967296 - 2147483648"

text \<open>
  Rounding to a \<open>float\<close> (IEEE 754 binary32, round to nearest, ties to even). A float has
  24 significant bits: when \<open>2\<^sup>e \<le> \<bar>x\<bar> < 2\<^sup>e\<^sup>+\<^sup>1\<close> the floats around \<open>x\<close> are the multiples of
  \<open>2\<^sup>e\<^sup>-\<^sup>2\<^sup>3\<close>, and \<open>to_float x\<close> is the nearest of them. \<open>bit_length n\<close> is the number of
  binary digits of a positive integer, \<open>float_exponent\<close> the exponent \<open>e\<close> of a positive
  number. The limits of the exponent (overflow to infinity above \<open>FLT_MAX\<close>, subnormal numbers
  below \<open>2\<^sup>-\<^sup>1\<^sup>2\<^sup>6\<close>) are not part of \<open>to_float\<close>: the letterbox geometry rounds quotients
  and products of positive 32-bit integers, which lie far inside these limits, and the
  reader of float text checks the limits itself.
\<close>

function bit_length :: "int \<Rightarrow> int" where
  "bit_length n = (if n \<le> 0 then 0 else 1 + bit_length (n div 2))"
  by pat_completeness auto
termination
  by (relation "measure nat") auto

definition pow2 :: "int \<Rightarrow> real" where
  "pow2 e = (if 0 \<le> e then 2 ^ nat e else 1 / 2 ^ nat (- e))"

definition float_exponent :: "real \<Rightarrow> int" where
  "float_exponent x =
     (if 1 \<le> x then bit_length \<lfloor>x\<rfloor> - 1 else - bit_length (\<lceil>1 / x\<rceil> - 1))"

definition round_half_even :: "real \<Rightarrow> int" where
  "round_half_even m =
     (let f = \<lfloor>m\<rfloor>; d = m - real_of_int f
      in if d < 1 / 2 then f
         else if 1 / 2 < d then f + 1
         else if even f then f else f + 1)"

definition to_float :: "real \<Rightarrow> real" where
  "to_float x =
     (if x = 0 then 0
      else
        let ulp = pow2 (float_exponent \<bar>x\<bar> - 23)
        in sgn x * real_of_int (round_half_even (\<bar>x\<bar> / ulp)) * ulp)"

section \<open>Configuration store (configuration\_manager.h, configuration\_manager.cpp)\<close>

subsection \<open>The property tree the store is built on\<close>

text \<open>
  A \<open>boost::property_tree::ptree\<close> node holds a string and an ordered sequence of
  (key, child) pairs. \<open>find\<close> returns the first child with the key. A path is a string
  whose fragments are separated by dots; \<open>reduce\<close> removes the first fragment and the
  separator after it.
\<close>

datatype ptree = PTree (data: string) (children: "(string \<times> ptree) list")

definition empty_ptree :: ptree where
  "empty_ptree = PTree [] []"

definition find_child :: "ptree \<Rightarrow> string \<Rightarrow> ptree option" where
  "find_child t k = map_of (children t) k"

definition path_reduce :: "string \<Rightarrow> string \<times> string" where
  "path_reduce p = (takeWhile (\<lambda>c. c \<noteq> CHR ''.'') p,
                    drop 1 (dropWhile (\<lambda>c. c \<noteq> CHR ''.'') p))"

definition path_single :: "string \<Rightarrow> bool" where
  "path_single p = (CHR ''.'' \<notin> set p)"

text \<open>\<open>walk_path\<close>: the node a path leads to; the empty path is the node itself.\<close>

function walk_path :: "ptree \<Rightarrow> string \<Rightarrow> ptree option" where
  "walk_path t p =
     (if p = [] then Some t
      else case find_child t (fst (path_reduce p)) of
             None \<Rightarrow> None
           | Some c \<Rightarrow> walk_path c (snd (path_reduce p)))"
  by pat_completeness auto
termination
proof (relation "measure (\<lambda>(t, p). length p)")
  show "wf (measure (\<lambda>(t, p). length p))" by simp
next
  fix t :: ptree and p :: string and c :: ptree
  assume "p \<noteq> []"
  moreover have "length (dropWhile (\<lambda>c. c \<noteq> CHR ''.'') p) \<le> length p"
    by (rule length_dropWhile_le)
  ultimately show "((c, snd (path_reduce p)), (t, p)) \<in> measure (\<lambda>(t, p). length p)"
    by (cases p) (auto simp: path_reduce_def)
qed

text \<open>
  \<open>set_child\<close>: assign the first child with the key, or append a new child; this is what
  \<open>put_child\<close> does with the last fragment and what \<open>force_path\<close> does on the way down.
\<close>

fun set_child :: "(string \<times> ptree) list \<Rightarrow> string \<Rightarrow> ptree \<Rightarrow> (string \<times> ptree) list" where
  "set_child [] k v = [(k, v)]"
| "set_child ((k', c) # kcs) k v =
     (if k' = k then (k', v) # kcs else (k', c) # set_child kcs k v)"

function put_child :: "ptree \<Rightarrow> string \<Rightarrow> ptree \<Rightarrow> ptree" where
  "put_child t p v =
     (if path_single p then
        PTree (data t) (set_child (children t) (fst (path_reduce p)) v)
      else
        let fragment = fst (path_reduce p);
            child = (case find_child t fragment of None \<Rightarrow> empty_ptree | Some c \<Rightarrow> c)
        in PTree (data t)
             (set_child (children t) fragment (put_child child (snd (path_reduce p)) v)))"
  by pat_completeness auto
termination
proof (relation "measure (\<lambda>(t, p, v). length p)")
  show "wf (measure (\<lambda>(t, p, v). length p))" by simp
next
  fix t :: ptree and p :: string and v :: ptree and fragment :: string and child :: ptree
  assume "\<not> path_single p"
  then have "p \<noteq> []" by (auto simp: path_single_def)
  moreover have "length (dropWhile (\<lambda>c. c \<noteq> CHR ''.'') p) \<le> length p"
    by (rule length_dropWhile_le)
  ultimately show "((child, snd (path_reduce p), v), (t, p, v))
                     \<in> measure (\<lambda>(t, p, v). length p)"
    by (cases p) (auto simp: path_reduce_def)
qed

text \<open>\<open>put_value_at\<close>: overwrite the string of the node an existing path leads to.\<close>

function put_value_at :: "ptree \<Rightarrow> string \<Rightarrow> string \<Rightarrow> ptree" where
  "put_value_at t p v =
     (if p = [] then PTree v (children t)
      else case find_child t (fst (path_reduce p)) of
             None \<Rightarrow> t
           | Some c \<Rightarrow>
               PTree (data t)
                 (set_child (children t) (fst (path_reduce p))
                    (put_value_at c (snd (path_reduce p)) v)))"
  by pat_completeness auto
termination
proof (relation "measure (\<lambda>(t, p, v). length p)")
  show "wf (measure (\<lambda>(t, p, v). length p))" by simp
next
  fix t :: ptree and p :: string and v :: string and c :: ptree
  assume "p \<noteq> []"
  moreover have "length (dropWhile (\<lambda>c. c \<noteq> CHR ''.'') p) \<le> length p"
    by (rule length_dropWhile_le)
  ultimately show "((c, snd (path_reduce p), v), (t, p, v))
                     \<in> measure (\<lambda>(t, p, v). length p)"
    by (cases p) (auto simp: path_reduce_def)
qed

text \<open>
  \<open>ptree::put\<close>: when the path exists its node gets the value, otherwise \<open>put_child\<close>
  creates the path and the new node gets the value.
\<close>

definition put :: "ptree \<Rightarrow> string \<Rightarrow> string \<Rightarrow> ptree" where
  "put t p v =
     (case walk_path t p of
        Some c \<Rightarrow> put_value_at t p v
      | None \<Rightarrow> put_child t p (PTree v []))"

subsection \<open>Library functions of C++ that the store calls\<close>

text \<open>
  \<open>std::stoi\<close>: skip leading white space, read an optional sign and the longest run of
  decimal digits, ignore the rest. No digit, or a value outside the range of \<open>int\<close>,
  throws (\<open>None\<close>). \<open>std::to_string(int)\<close> prints the decimal digits with a leading minus
  sign for a negative number.
\<close>

definition is_space :: "char \<Rightarrow> bool" where
  "is_space c = (c \<in> {CHR '' '', CHR 0x09, CHR 0x0A, CHR 0x0B, CHR 0x0C, CHR 0x0D})"

definition is_digit :: "char \<Rightarrow> bool" where
  "is_digit c = (c \<in> set ''0123456789'')"

definition digit_val :: "char \<Rightarrow> int" where
  "digit_val c = of_char c - 48"

definition digit_char :: "nat \<Rightarrow> char" where
  "digit_char d = ''0123456789'' ! d"




definition stoi :: "string \<Rightarrow> int option" where
  "stoi str =
     (let s1 = dropWhile is_space str;
          neg = (s1 \<noteq> [] \<and> hd s1 = CHR ''-'');
          s2 = (if s1 \<noteq> [] \<and> (hd s1 = CHR ''-'' \<or> hd s1 = CHR ''+'') then tl s1 else s1);
          ds = takeWhile is_digit s2;
          n = foldl (\<lambda>a c. 10 * a + digit_val c) 0 ds;
          v = (if neg then - n else n)
      in if ds = [] then None
         else if v < INT_MIN \<or> v > INT_MAX then None
         else Some v)"

function dec :: "nat \<Rightarrow> string" where
  "dec n = (if n < 10 then [digit_char n] else dec (n div 10) @ [digit_char (n mod 10)])"
  by pat_completeness auto
termination
  by (relation "measure (\<lambda>n. n)") auto

definition to_string :: "int \<Rightarrow> string" where
  "to_string i = (if i < 0 then CHR ''-'' # dec (nat (- i)) else dec (nat i))"

text \<open>
  The functions on floating-point text are parameters: \<open>stof\<close> is \<open>std::stof\<close> (\<open>None\<close> when
  it throws), \<open>to_string_float\<close> is \<open>std::to_string(float)\<close>, \<open>stream_to_float\<close> is the
  stream translator of \<open>ptree::get_optional<float>\<close> (\<open>None\<close> when the text is no number),
  \<open>regex_match\<close> takes the pattern and the text (\<open>None\<close> when constructing the
  \<open>std::regex\<close> throws).
\<close>

record cxxlib =
  stof :: "string \<Rightarrow> real option"
  to_string_float :: "real \<Rightarrow> string"
  stream_to_float :: "string \<Rightarrow> real option"
  regex_match :: "string \<Rightarrow> string \<Rightarrow> bool option"

text \<open>
  \<open>std::to_string(float)\<close> formats its argument as \<open>printf\<close> does with \<open>%f\<close>: a minus
  sign for a negative number, the digits of the integer part, a point, and exactly six
  digits after it, the value rounded to that precision.
\<close>

definition std_to_string_float :: "real \<Rightarrow> string" where
  "std_to_string_float x =
     (let n = round_half_even (\<bar>x\<bar> * 1000000);
          whole = dec (nat (n div 1000000));
          frac = dec (nat (n mod 1000000))
      in (if x < 0 then ''-'' else []) @ whole @ ''.''
           @ replicate (6 - length frac) (CHR ''0'') @ frac)"

text \<open>
  \<open>std::stof\<close> calls \<open>strtof\<close>: white space is skipped, then comes an optional sign and
  the longest text that is a number, either decimal (digits with an optional point, then
  an optional exponent \<open>e\<close> with an optional sign and digits) or hexadecimal (\<open>0x\<close>, hex
  digits with an optional point, then an optional binary exponent \<open>p\<close>); what follows the
  number is ignored. \<open>read_mantissa\<close> gives the value of the digits and the text after
  them, \<open>read_exponent\<close> the exponent, 0 when there is none. The value is rounded to the
  nearest float. \<open>std::stof\<close> throws \<open>std::invalid_argument\<close> when there is no number and
  \<open>std::out_of_range\<close> when \<open>strtof\<close> reports an overflow or an underflow; both are
  \<open>None\<close>. The texts \<open>inf\<close> and \<open>nan\<close>, which \<open>strtof\<close> also reads, have no value among the
  real numbers and are not modelled.
\<close>

definition is_hex_digit :: "char \<Rightarrow> bool" where
  "is_hex_digit c = (c \<in> set ''0123456789abcdefABCDEF'')"

definition hex_val :: "char \<Rightarrow> int" where
  "hex_val c =
     (if is_digit c then of_char c - 48
      else if c \<in> set ''abcdef'' then of_char c - 87
      else of_char c - 55)"

definition read_mantissa ::
  "int \<Rightarrow> (char \<Rightarrow> bool) \<Rightarrow> (char \<Rightarrow> int) \<Rightarrow> string \<Rightarrow> (real \<times> string) option" where
  "read_mantissa base is_dig val s =
     (let whole = takeWhile is_dig s;
          s1 = dropWhile is_dig s;
          has_point = (s1 \<noteq> [] \<and> hd s1 = CHR ''.'');
          frac = (if has_point then takeWhile is_dig (tl s1) else []);
          rest = (if has_point then dropWhile is_dig (tl s1) else s1);
          v = real_of_int (foldl (\<lambda>a c. base * a + val c) 0 whole)
                + real_of_int (foldl (\<lambda>a c. base * a + val c) 0 frac)
                    / real_of_int base ^ length frac
      in if whole = [] \<and> frac = [] then None else Some (v, rest))"

definition read_exponent :: "string \<Rightarrow> string \<Rightarrow> int" where
  "read_exponent markers s =
     (if s \<noteq> [] \<and> hd s \<in> set markers then
        let s1 = tl s;
            neg = (s1 \<noteq> [] \<and> hd s1 = CHR ''-'');
            s2 = (if s1 \<noteq> [] \<and> (hd s1 = CHR ''-'' \<or> hd s1 = CHR ''+'') then tl s1 else s1);
            ds = takeWhile is_digit s2;
            n = foldl (\<lambda>a c. 10 * a + digit_val c) 0 ds
        in if ds = [] then 0 else if neg then - n else n
      else 0)"

definition pow10 :: "int \<Rightarrow> real" where
  "pow10 e = (if 0 \<le> e then 10 ^ nat e else 1 / 10 ^ nat (- e))"

definition strtof_value :: "string \<Rightarrow> real option" where
  "strtof_value str =
     (let s1 = dropWhile is_space str;
          neg = (s1 \<noteq> [] \<and> hd s1 = CHR ''-'');
          s2 = (if s1 \<noteq> [] \<and> (hd s1 = CHR ''-'' \<or> hd s1 = CHR ''+'') then tl s1 else s1);
          hex = (if take 2 s2 = ''0x'' \<or> take 2 s2 = ''0X''
                 then read_mantissa 16 is_hex_digit hex_val (drop 2 s2) else None);
          v = (case hex of
                 Some (m, rest) \<Rightarrow> Some (m * pow2 (read_exponent ''pP'' rest))
               | None \<Rightarrow>
                   (case read_mantissa 10 is_digit digit_val s2 of
                      Some (m, rest) \<Rightarrow> Some (m * pow10 (read_exponent ''eE'' rest))
                    | None \<Rightarrow> None))
      in case v of None \<Rightarrow> None | Some x \<Rightarrow> Some (if neg then - x else x))"

definition FLT_MAX :: real where
  "FLT_MAX = 340282346638528859811704183484516925440"

definition FLT_MIN :: real where
  "FLT_MIN = 1 / 2 ^ 126"

definition std_stof :: "string \<Rightarrow> real option" where
  "std_stof str =
     (case strtof_value str of
        None \<Rightarrow> None
      | Some x \<Rightarrow>
          if \<bar>to_float x\<bar> > FLT_MAX then None
          else if x \<noteq> 0 \<and> \<bar>to_float x\<bar> < FLT_MIN then None
          else Some (to_float x))"

subsection \<open>The store\<close>

record ConfigurationManager =
  json_config :: ptree
  yaml_config :: ptree
  cli_overrides :: ptree
  mappings :: ptree
  presets :: ptree
  validation_errors :: "string list"

text \<open>
  \<open>GetFromTree<std::string>\<close>: \<open>tree.get<std::string>(path)\<close>, with the \<open>ptree_error\<close> of
  a missing path turned into \<open>std::nullopt\<close>. Reading a node as a string cannot fail.
\<close>

definition GetFromTree :: "ptree \<Rightarrow> string \<Rightarrow> string option" where
  "GetFromTree tree path =
     (case walk_path tree path of None \<Rightarrow> None | Some c \<Rightarrow> Some (data c))"

definition SetInTree :: "ptree \<Rightarrow> string \<Rightarrow> string \<Rightarrow> ptree" where
  "SetInTree tree path v = put tree path v"

definition MapToJsonPath :: "ConfigurationManager \<Rightarrow> string \<Rightarrow> string" where
  "MapToJsonPath cm yaml_key =
     (case walk_path (mappings cm) (''mappings.'' @ yaml_key) of
        None \<Rightarrow> yaml_key
      | Some mapping \<Rightarrow>
          (case GetFromTree mapping ''json_path'' of
             Some json_path \<Rightarrow> json_path
           | None \<Rightarrow> yaml_key))"

text \<open>\<open>GetValue<T>\<close>, at the only type the store instantiates it at, \<open>std::string\<close>.\<close>

definition GetValue :: "ConfigurationManager \<Rightarrow> string \<Rightarrow> string \<Rightarrow> string" where
  "GetValue cm key default_value =
     (case GetFromTree (cli_overrides cm) key of
        Some val \<Rightarrow> val
      | None \<Rightarrow>
          (case GetFromTree (yaml_config cm) key of
             Some val \<Rightarrow> val
           | None \<Rightarrow>
               (case GetFromTree (json_config cm) (MapToJsonPath cm key) of
                  Some val \<Rightarrow> val
                | None \<Rightarrow> default_value)))"

definition GetString :: "ConfigurationManager \<Rightarrow> string \<Rightarrow> string \<Rightarrow> string" where
  "GetString cm key default_value = GetValue cm key default_value"

definition GetInt :: "ConfigurationManager \<Rightarrow> string \<Rightarrow> int \<Rightarrow> int" where
  "GetInt cm key default_value =
     (let str_val = GetString cm key (to_string default_value)
      in case stoi str_val of Some n \<Rightarrow> n | None \<Rightarrow> default_value)"

definition GetFloat :: "cxxlib \<Rightarrow> ConfigurationManager \<Rightarrow> string \<Rightarrow> real \<Rightarrow> real" where
  "GetFloat lib cm key default_value =
     (let str_val = GetString cm key (to_string_float lib default_value)
      in case stof lib str_val of Some x \<Rightarrow> x | None \<Rightarrow> default_value)"

definition GetBool :: "ConfigurationManager \<Rightarrow> string \<Rightarrow> bool \<Rightarrow> bool" where
  "GetBool cm key default_value =
     (let str_val = GetString cm key (if default_value then ''true'' else ''false'')
      in if str_val = ''true'' \<or> str_val = ''1'' \<or> str_val = ''yes'' \<or> str_val = ''on''
         then True
         else if str_val = ''false'' \<or> str_val = ''0'' \<or> str_val = ''no'' \<or> str_val = ''off''
         then False
         else default_value)"

definition SetOverride :: "ConfigurationManager \<Rightarrow> string \<Rightarrow> string \<Rightarrow> ConfigurationManager" where
  "SetOverride cm key v = cm\<lparr>cli_overrides := SetInTree (cli_overrides cm) key v\<rparr>"

text \<open>
  The precedence in the words of the specification: the runtime value when the key is
  present in the runtime tier, otherwise the user value, otherwise the system value at the
  mapped path. It is compared with \<open>GetValue\<close> below.
\<close>

definition spec_effective_value :: "ConfigurationManager \<Rightarrow> string \<Rightarrow> string option" where
  "spec_effective_value cm k =
     (if GetFromTree (cli_overrides cm) k \<noteq> None then GetFromTree (cli_overrides cm) k
      else if GetFromTree (yaml_config cm) k \<noteq> None then GetFromTree (yaml_config cm) k
      else GetFromTree (json_config cm) (MapToJsonPath cm k))"

subsection \<open>Validation\<close>

definition quote :: string where
  "quote = [CHR 0x27]"

definition get_optional_float :: "cxxlib \<Rightarrow> ptree \<Rightarrow> string \<Rightarrow> real option" where
  "get_optional_float lib t path =
     (case walk_path t path of None \<Rightarrow> None | Some c \<Rightarrow> stream_to_float lib (data c))"

text \<open>
  \<open>ValidateValue\<close> takes the error list and returns it, with at most one message added.
  The checks run in the order enum, min/max, pattern; the first that fails returns. The
  outer \<open>catch (...)\<close> turns an exception of the regular-expression constructor into
  \<open>return true\<close>; the inner one turns an exception of \<open>std::stof\<close> into the message
  "is not numeric".
\<close>

definition validate_pattern ::
  "cxxlib \<Rightarrow> ptree \<Rightarrow> string \<Rightarrow> string \<Rightarrow> string list \<Rightarrow> bool \<times> string list" where
  "validate_pattern lib validation key v errs =
     (case GetFromTree validation ''pattern'' of
        None \<Rightarrow> (True, errs)
      | Some pattern \<Rightarrow>
          (case regex_match lib pattern v of
             None \<Rightarrow> (True, errs)
           | Some matched \<Rightarrow>
               if \<not> matched then
                 (False, errs @ [key @ '': value '' @ quote @ v @ quote
                                   @ '' does not match pattern''])
               else (True, errs)))"

definition ValidateValue ::
  "cxxlib \<Rightarrow> ptree \<Rightarrow> string \<Rightarrow> string \<Rightarrow> string list \<Rightarrow> bool \<times> string list" where
  "ValidateValue lib mappings_tree key v errs =
     (case walk_path mappings_tree (''mappings.'' @ key) of
        None \<Rightarrow> (True, errs)
      | Some mapping \<Rightarrow>
     (case walk_path mapping ''validation'' of
        None \<Rightarrow> (True, errs)
      | Some validation \<Rightarrow>
          let enum_missing =
                (case walk_path validation ''enum'' of
                   None \<Rightarrow> False
                 | Some enum_values \<Rightarrow>
                     \<not> list_ex (\<lambda>(k, enum_val). data enum_val = v) (children enum_values))
          in if enum_missing then
               (False, errs @ [key @ '': value '' @ quote @ v @ quote
                                 @ '' not in allowed values''])
             else
               let min = get_optional_float lib validation ''min'';
                   max = get_optional_float lib validation ''max''
               in if min \<noteq> None \<or> max \<noteq> None then
                    (case stof lib v of
                       None \<Rightarrow>
                         (False, errs @ [key @ '': value '' @ quote @ v @ quote
                                           @ '' is not numeric''])
                     | Some num_val \<Rightarrow>
                         if (case min of Some m \<Rightarrow> num_val < m | None \<Rightarrow> False) then
                           (False, errs @ [key @ '': value '' @ v @ '' below minimum ''
                                             @ to_string_float lib (value_or min 0)])
                         else if (case max of Some m \<Rightarrow> num_val > m | None \<Rightarrow> False) then
                           (False, errs @ [key @ '': value '' @ v @ '' above maximum ''
                                             @ to_string_float lib (value_or max 0)])
                         else validate_pattern lib validation key v errs)
                  else validate_pattern lib validation key v errs))"

text \<open>
  \<open>ValidateConfiguration\<close>: clear the error list, then visit the children of the root of
  \<open>yaml_config_\<close>, then those of \<open>cli_overrides_\<close>, each with its key and its own string.
\<close>

definition validate_entry ::
  "cxxlib \<Rightarrow> ptree \<Rightarrow> string \<times> ptree \<Rightarrow> bool \<times> string list \<Rightarrow> bool \<times> string list" where
  "validate_entry lib mappings_tree entry acc =
     (let str_val = data (snd entry);
          r = ValidateValue lib mappings_tree (fst entry) str_val (snd acc)
      in (if \<not> fst r then False else fst acc, snd r))"

definition ValidateConfiguration ::
  "cxxlib \<Rightarrow> ConfigurationManager \<Rightarrow> bool \<times> ConfigurationManager" where
  "ValidateConfiguration lib cm =
     (let acc0 = (True, []);
          acc1 = fold (validate_entry lib (mappings cm)) (children (yaml_config cm)) acc0;
          acc2 = fold (validate_entry lib (mappings cm)) (children (cli_overrides cm)) acc1
      in (fst acc2, cm\<lparr>validation_errors := snd acc2\<rparr>))"

definition GetValidationErrors :: "ConfigurationManager \<Rightarrow> string list" where
  "GetValidationErrors cm = validation_errors cm"

subsection \<open>Example stores\<close>

text \<open>
  The three tiers of the concrete scenario: the system file holds \<open>a.b = 1\<close>, the user
  tier \<open>a.b = 2\<close>, and \<open>SetOverride\<close> puts \<open>a.b = 3\<close> into the runtime tier.
\<close>

definition tier_ab :: "string \<Rightarrow> ptree" where
  "tier_ab v = PTree [] [(''a'', PTree [] [(''b'', PTree v [])])]"

definition cm_empty :: ConfigurationManager where
  "cm_empty = \<lparr>json_config = empty_ptree, yaml_config = empty_ptree,
               cli_overrides = empty_ptree, mappings = empty_ptree,
               presets = empty_ptree, validation_errors = []\<rparr>"

definition cm_system_user :: ConfigurationManager where
  "cm_system_user = cm_empty\<lparr>json_config := tier_ab ''1'', yaml_config := tier_ab ''2''\<rparr>"

definition cm_all_tiers :: ConfigurationManager where
  "cm_all_tiers = SetOverride cm_system_user ''a.b'' ''3''"

definition cm_system_only :: ConfigurationManager where
  "cm_system_only = cm_empty\<lparr>json_config := tier_ab ''1''\<rparr>"

text \<open>
  A mapping table that sends the flat key \<open>gain\<close> to the path
  \<open>gs_config.cameras.kCamera1Gain\<close> of the system file, and a store whose system file
  holds 6 at that path and 9 under the flat key itself.
\<close>

definition mappings_gain :: ptree where
  "mappings_gain =
     PTree [] [(''mappings'', PTree []
       [(''gain'', PTree []
          [(''json_path'', PTree ''gs_config.cameras.kCamera1Gain'' [])])])]"

definition cm_mapped :: ConfigurationManager where
  "cm_mapped =
     cm_empty\<lparr>mappings := mappings_gain,
              json_config := PTree []
                [(''gain'', PTree ''9'' []),
                 (''gs_config'', PTree []
                    [(''cameras'', PTree [] [(''kCamera1Gain'', PTree ''6'' [])])])]\<rparr>"

text \<open>The float \<open>1e-7f\<close>: the float nearest to one ten-millionth.\<close>

definition float_1e_7 :: real where
  "float_1e_7 = to_float (1 / 10000000)"

text \<open>
  A mapping table that declares the flat key \<open>mode\<close> with the allowed values \<open>placed\<close> and
  \<open>strobed\<close>, and stores whose tiers hold other values for it.
\<close>

definition mappings_mode :: ptree where
  "mappings_mode =
     PTree [] [(''mappings'', PTree []
       [(''mode'', PTree []
          [(''validation'', PTree []
             [(''enum'', PTree [] [(''0'', PTree ''placed'' []),
                                   (''1'', PTree ''strobed'' [])])])])])]"

definition lib_none :: cxxlib where
  "lib_none = \<lparr>stof = (\<lambda>s. None), to_string_float = (\<lambda>x. []),
               stream_to_float = (\<lambda>s. None), regex_match = (\<lambda>p s. None)\<rparr>"

text \<open>
  The library with \<open>std::stof\<close> and \<open>std::to_string\<close> as above; the other two functions
  are not called by the getters.
\<close>

definition lib_text :: cxxlib where
  "lib_text = lib_none\<lparr>stof := std_stof, to_string_float := std_to_string_float\<rparr>"

definition cm_bad_system_value :: ConfigurationManager where
  "cm_bad_system_value =
     cm_empty\<lparr>mappings := mappings_mode,
              json_config := PTree [] [(''mode'', PTree ''video'' [])]\<rparr>"

definition cm_bad_user_good_cli :: ConfigurationManager where
  "cm_bad_user_good_cli =
     SetOverride
       (cm_empty\<lparr>mappings := mappings_mode,
                 yaml_config := PTree [] [(''mode'', PTree ''video'' [])]\<rparr>)
       ''mode'' ''placed''"

section \<open>Flight-capture event loop (libcamera\_jpeg.cpp)\<close>

datatype FlightCameraState =
    kUninitialized
  | kWaitingForFirstPrimingPulseGroup
  | kWaitingForFirstPrimingTimeEnd
  | kWaitingForPreImageTrigger
  | kWaitingForPreImageFlush
  | kWaitingForSecondPrimingPulseGroup
  | kWaitingForSecondPrimingTimeEnd
  | kWaitingForFinalImageTrigger
  | kWaitingForFinalImageFlush
  | kFinalImageReceived

text \<open>
  The message types of the camera framework; \<open>OtherMsg\<close> is any type the loop does not
  recognise.
\<close>

datatype MsgType = Timeout | Quit | RequestComplete | OtherMsg

type_synonym image = "nat list"

text \<open>
  What one pass of the loop reads from outside: the flag \<open>golf_sim_running_\<close> at the head
  of the loop, the message \<open>app.Wait()\<close> returns, the reading of \<open>steady_clock::now()\<close>
  in nanoseconds, whether \<open>app.ViewfinderStream()\<close> is null, whether the buffer memory is
  null, and the frame in the buffer.
\<close>

record tick =
  golf_sim_running :: bool
  msg_type :: MsgType
  now :: int
  viewfinder_stream_null :: bool
  image_null :: bool
  frame :: image

text \<open>
  The constants the loop reads from other modules (\<open>PulseStrobe\<close>, \<open>GolfSimCamera\<close>);
  \<open>camera_is_InnoMaker\<close> says whether the camera in slot 2 is the
  \<open>InnoMakerIMX296GS_Mono\<close>.
\<close>

record flight_constants =
  kNumberPrimingPulses :: int
  kPrimingPulseFPS :: int
  kPauseToSetUpInnoMakerExternalTriggerMilliseconds :: int
  camera_is_InnoMaker :: bool
  kUsePreImageSubtraction :: bool
  kCameraRequiresFlushPulse :: bool

text \<open>
  \<open>kQuiesceTimeMs\<close>. The constants are \<open>int\<close>s, so the sum, the quotient and the product
  are computed in \<open>int\<close> before the result is widened to the \<open>long\<close> variable: the
  quotient \<open>1000 / kPrimingPulseFPS\<close> truncates, and a sum or product that does not fit
  into 32 bits wraps around. With a rate of 0 the division traps and there is no value.
  The allowance is added to the \<open>long\<close>, which has 64 bits on the target and cannot
  overflow from two 32-bit values.
\<close>

definition kQuiesceTimeMs :: "flight_constants \<Rightarrow> int option" where
  "kQuiesceTimeMs k =
     (if kPrimingPulseFPS k = 0 then None
      else
        let q = int32 (int32 (kNumberPrimingPulses k + 1) * (1000 sdiv kPrimingPulseFPS k))
        in Some (if camera_is_InnoMaker k
                 then q + kPauseToSetUpInnoMakerExternalTriggerMilliseconds k
                 else q))"

text \<open>
  The quiesce time in the words of the specification, where \<open>1000 / priming_fps\<close> is the
  quotient of the two numbers.
\<close>

definition spec_quiesce_ms :: "flight_constants \<Rightarrow> real" where
  "spec_quiesce_ms k =
     (real_of_int (kNumberPrimingPulses k) + 1) * (1000 / real_of_int (kPrimingPulseFPS k))
       + (if camera_is_InnoMaker k
          then real_of_int (kPauseToSetUpInnoMakerExternalTriggerMilliseconds k) else 0)"

record loop_vars =
  state :: FlightCameraState
  timeOfFirstTrigger :: int
  return_status :: bool
  innomaker_first_external_trigger_is_set :: bool
  returnImg :: image

text \<open>
  \<open>duration_cast<milliseconds>\<close> of a difference of two clock readings in nanoseconds:
  division by one million, truncating.
\<close>

definition ns_per_ms :: int where
  "ns_per_ms = 1000000"

definition timeLapsed_ms :: "int \<Rightarrow> int \<Rightarrow> int" where
  "timeLapsed_ms timeOfCurrentTrigger first = (timeOfCurrentTrigger - first) sdiv ns_per_ms"

text \<open>\<open>SetExternalTrigger\<close>: the flag is set when it was clear and the camera is the InnoMaker.\<close>

definition SetExternalTrigger :: "flight_constants \<Rightarrow> bool \<Rightarrow> bool" where
  "SetExternalTrigger k flag = (if \<not> flag \<and> camera_is_InnoMaker k then True else flag)"

text \<open>
  The \<open>switch\<close> on the state for one \<open>RequestComplete\<close> message. \<open>Inl\<close> is a \<open>return\<close> from
  inside the switch with that value; \<open>Inr\<close> gives the variables at the \<open>break\<close>.
\<close>

definition on_request_complete ::
  "flight_constants \<Rightarrow> int \<Rightarrow> tick \<Rightarrow> loop_vars \<Rightarrow> bool + loop_vars" where
  "on_request_complete k quiesce t v =
     (case state v of
        kWaitingForFinalImageTrigger \<Rightarrow> Inr (v\<lparr>state := kWaitingForFinalImageFlush\<rparr>)
      | kWaitingForFinalImageFlush \<Rightarrow>
          if viewfinder_stream_null t then Inl False
          else if image_null t then Inl False
          else Inr (v\<lparr>returnImg := frame t, return_status := True,
                      state := kFinalImageReceived\<rparr>)
      | kUninitialized \<Rightarrow> Inr (v\<lparr>return_status := False\<rparr>)
      | kFinalImageReceived \<Rightarrow> Inr (v\<lparr>return_status := False\<rparr>)
      | kWaitingForFirstPrimingPulseGroup \<Rightarrow>
          Inr (v\<lparr>timeOfFirstTrigger := now t,
                  innomaker_first_external_trigger_is_set :=
                    SetExternalTrigger k (innomaker_first_external_trigger_is_set v),
                  state := kWaitingForFirstPrimingTimeEnd\<rparr>)
      | kWaitingForFirstPrimingTimeEnd \<Rightarrow>
          if timeLapsed_ms (now t) (timeOfFirstTrigger v) < quiesce then
            Inr (v\<lparr>state := kWaitingForFirstPrimingTimeEnd\<rparr>)
          else if \<not> kUsePreImageSubtraction k then
            if \<not> kCameraRequiresFlushPulse k then
              Inr (v\<lparr>state := kWaitingForFinalImageFlush\<rparr>)
            else Inr (v\<lparr>state := kWaitingForFinalImageTrigger\<rparr>)
          else Inr (v\<lparr>state := kWaitingForPreImageTrigger\<rparr>)
      | kWaitingForPreImageTrigger \<Rightarrow>
          if viewfinder_stream_null t then Inr (v\<lparr>return_status := False\<rparr>)
          else Inr (v\<lparr>state := kWaitingForPreImageFlush\<rparr>)
      | kWaitingForPreImageFlush \<Rightarrow> Inr (v\<lparr>state := kWaitingForFinalImageTrigger\<rparr>)
      | kWaitingForSecondPrimingPulseGroup \<Rightarrow>
          Inr (v\<lparr>timeOfFirstTrigger := now t, state := kWaitingForSecondPrimingTimeEnd\<rparr>)
      | kWaitingForSecondPrimingTimeEnd \<Rightarrow>
          if timeLapsed_ms (now t) (timeOfFirstTrigger v) < quiesce sdiv 2 then
            Inr (v\<lparr>state := kWaitingForSecondPrimingTimeEnd\<rparr>)
          else Inr (v\<lparr>state := kWaitingForFinalImageTrigger\<rparr>))"

text \<open>
  How a run of the loop over the ticks it is given ends: it returns a value, it throws
  \<open>std::runtime_error("Unrecognised message!")\<close>, or it has used up the ticks and goes on
  to the next pass, where it waits in \<open>app.Wait()\<close> unless the flag
  \<open>golf_sim_running_\<close> has been cleared. The variables at that moment are kept for
  inspection.
\<close>

datatype loop_end = Returned bool loop_vars | Threw loop_vars | Waits loop_vars

fun flight_loop :: "flight_constants \<Rightarrow> int \<Rightarrow> loop_vars \<Rightarrow> tick list \<Rightarrow> loop_end" where
  "flight_loop k quiesce v [] =
     (if state v = kFinalImageReceived then Returned (return_status v) v
      else if return_status v = False then Returned False v
      else Waits v)"
| "flight_loop k quiesce v (t # ts) =
     (if state v = kFinalImageReceived then Returned (return_status v) v
      else if \<not> golf_sim_running t \<or> return_status v = False then
        Returned False (v\<lparr>return_status := False\<rparr>)
      else
        case msg_type t of
          Timeout \<Rightarrow> flight_loop k quiesce v ts
        | Quit \<Rightarrow> Returned True v
        | OtherMsg \<Rightarrow> Threw v
        | RequestComplete \<Rightarrow>
            (case on_request_complete k quiesce t v of
               Inl b \<Rightarrow> Returned b v
             | Inr v' \<Rightarrow> flight_loop k quiesce v' ts))"

text \<open>
  \<open>ball_flight_camera_event_loop\<close> after the camera has been opened and started: the
  quiesce time is computed, the state starts at \<open>kWaitingForFirstPrimingPulseGroup\<close> with
  the clock reading \<open>t0\<close>, and the loop runs. \<open>None\<close> is the trap of a division by zero.
\<close>

definition ball_flight_camera_event_loop ::
  "flight_constants \<Rightarrow> int \<Rightarrow> image \<Rightarrow> tick list \<Rightarrow> loop_end option" where
  "ball_flight_camera_event_loop k t0 img0 ts =
     (case kQuiesceTimeMs k of
        None \<Rightarrow> None
      | Some quiesce \<Rightarrow>
          Some (flight_loop k quiesce
                  \<lparr>state = kWaitingForFirstPrimingPulseGroup, timeOfFirstTrigger = t0,
                   return_status = True, innomaker_first_external_trigger_is_set = False,
                   returnImg = img0\<rparr> ts))"

text \<open>
  A trigger inside the quiesce period, in the words of the specification: the loop is
  running, the message is a completed request, and the time since the first trigger,
  measured on the clock in nanoseconds, is less than the quiesce time.
\<close>

definition trigger_while_quiescing :: "int \<Rightarrow> int \<Rightarrow> tick \<Rightarrow> bool" where
  "trigger_while_quiescing first quiesce t \<longleftrightarrow>
     golf_sim_running t \<and> msg_type t = RequestComplete
     \<and> first \<le> now t \<and> now t - first < quiesce * ns_per_ms"

subsection \<open>Example run\<close>

text \<open>
  Three priming pulses at 1000 per second, no InnoMaker camera, pre-image subtraction on:
  the quiesce time is 4 ms. Triggers arrive 0, 1, 2, 3 and 5 ms after the first one.
\<close>

definition consts_3_at_1000 :: flight_constants where
  "consts_3_at_1000 =
     \<lparr>kNumberPrimingPulses = 3, kPrimingPulseFPS = 1000,
      kPauseToSetUpInnoMakerExternalTriggerMilliseconds = 0,
      camera_is_InnoMaker = False, kUsePreImageSubtraction = True,
      kCameraRequiresFlushPulse = True\<rparr>"

text \<open>The same with 300 pulses per second: \<open>1000 / 300\<close> is 3 in the loop.\<close>

definition consts_3_at_300 :: flight_constants where
  "consts_3_at_300 = consts_3_at_1000\<lparr>kPrimingPulseFPS := 300\<rparr>"

definition trigger_at :: "int \<Rightarrow> tick" where
  "trigger_at ns =
     \<lparr>golf_sim_running = True, msg_type = RequestComplete, now = ns,
      viewfinder_stream_null = False, image_null = False, frame = []\<rparr>"

definition vars_priming :: loop_vars where
  "vars_priming =
     \<lparr>state = kWaitingForFirstPrimingTimeEnd, timeOfFirstTrigger = 0,
      return_status = True, innomaker_first_external_trigger_is_set = False,
      returnImg = []\<rparr>"

text \<open>
  The whole scenario: the first trigger at 0 ms, priming triggers at 1, 2 and 3 ms, the
  trigger at 5 ms that ends the priming, then the pre-image trigger and its flush, the
  final trigger, and the final flush with the frame in the buffer.
\<close>

definition scenario_ticks :: "image \<Rightarrow> tick list" where
  "scenario_ticks img =
     [trigger_at 0, trigger_at 1000000, trigger_at 2000000, trigger_at 3000000,
      trigger_at 5000000, trigger_at 6000000, trigger_at 7000000, trigger_at 8000000,
      (trigger_at 9000000)\<lparr>frame := img\<rparr>]"

section \<open>Neural detector (onnx\_runtime\_detector.hpp, onnx\_runtime\_detector.cpp)\<close>

subsection \<open>Boxes and intersection over union\<close>

text \<open>
  \<open>cv::Rect2f\<close> and the two operations of OpenCV that \<open>IOU\<close> uses: the area, and the
  intersection \<open>a & b\<close>, which is the all-zero rectangle when the two do not overlap.
\<close>

record Rect2f =
  rect_x :: real
  rect_y :: real
  rect_width :: real
  rect_height :: real

definition rect_area :: "Rect2f \<Rightarrow> real" where
  "rect_area r = rect_width r * rect_height r"

definition rect_intersection :: "Rect2f \<Rightarrow> Rect2f \<Rightarrow> Rect2f" where
  "rect_intersection a b =
     (let x1 = max (rect_x a) (rect_x b);
          y1 = max (rect_y a) (rect_y b);
          w = min (rect_x a + rect_width a) (rect_x b + rect_width b) - x1;
          h = min (rect_y a + rect_height a) (rect_y b + rect_height b) - y1
      in if w \<le> 0 \<or> h \<le> 0
         then \<lparr>rect_x = 0, rect_y = 0, rect_width = 0, rect_height = 0\<rparr>
         else \<lparr>rect_x = x1, rect_y = y1, rect_width = w, rect_height = h\<rparr>)"

text \<open>\<open>std::numeric_limits<float>::epsilon()\<close> is \<open>2\<^sup>-\<^sup>2\<^sup>3\<close>.\<close>

definition float_epsilon :: real where
  "float_epsilon = 1 / 8388608"

definition IOU :: "Rect2f \<Rightarrow> Rect2f \<Rightarrow> real" where
  "IOU a b =
     (let intersection = rect_area (rect_intersection a b);
          union_area = rect_area a + rect_area b - intersection
      in if union_area \<le> float_epsilon then 0
         else max 0 (min 1 (intersection / union_area)))"

subsection \<open>Detections and non-maximum suppression\<close>

record Detection =
  bbox :: Rect2f
  confidence :: real
  class_id :: int

text \<open>
  \<open>NonMaxSuppression\<close>. The vector is sorted with the comparator
  \<open>a.confidence > b.confidence\<close>; \<open>std::sort\<close> leaves the order of detections with equal
  confidence open, and the model sorts them stably. Then the two nested loops run over
  the indices, with the vector \<open>suppressed\<close> of flags: \<open>suppress_step\<close> is the body of the
  inner loop for one \<open>j\<close>, \<open>suppress_later\<close> the inner loop for one \<open>i\<close>, \<open>nms_step\<close> the
  body of the outer loop on the pair of \<open>suppressed\<close> and \<open>result\<close>.
\<close>

definition suppress_step ::
  "real \<Rightarrow> Detection list \<Rightarrow> nat \<Rightarrow> nat \<Rightarrow> bool list \<Rightarrow> bool list" where
  "suppress_step nms_thr detections i j suppressed =
     (if suppressed ! j then suppressed
      else if class_id (detections ! i) \<noteq> class_id (detections ! j) then suppressed
      else if IOU (bbox (detections ! i)) (bbox (detections ! j)) > nms_thr
      then suppressed[j := True]
      else suppressed)"

definition suppress_later ::
  "real \<Rightarrow> Detection list \<Rightarrow> nat \<Rightarrow> bool list \<Rightarrow> bool list" where
  "suppress_later nms_thr detections i suppressed =
     fold (suppress_step nms_thr detections i) [Suc i..<length detections] suppressed"

definition nms_step ::
  "real \<Rightarrow> Detection list \<Rightarrow> nat \<Rightarrow> bool list \<times> Detection list
     \<Rightarrow> bool list \<times> Detection list" where
  "nms_step nms_thr detections i acc =
     (if fst acc ! i then acc
      else (suppress_later nms_thr detections i (fst acc), snd acc @ [detections ! i]))"

definition nms_loops :: "real \<Rightarrow> Detection list \<Rightarrow> Detection list" where
  "nms_loops nms_thr detections =
     snd (fold (nms_step nms_thr detections) [0..<length detections]
            (replicate (length detections) False, []))"

text \<open>
  Two notions for stating what the loops do: \<open>suppresses\<close> is the test under which the
  inner loop sets the flag of \<open>j\<close> while \<open>i\<close> is being kept, and \<open>nms_state\<close> is the
  pair of \<open>suppressed\<close> and \<open>result\<close> after the outer loop has run for the indices below
  \<open>m\<close>.
\<close>

definition suppresses :: "real \<Rightarrow> Detection list \<Rightarrow> nat \<Rightarrow> nat \<Rightarrow> bool" where
  "suppresses nms_thr detections i j \<longleftrightarrow>
     class_id (detections ! i) = class_id (detections ! j)
     \<and> IOU (bbox (detections ! i)) (bbox (detections ! j)) > nms_thr"

definition nms_state :: "real \<Rightarrow> Detection list \<Rightarrow> nat \<Rightarrow> bool list \<times> Detection list" where
  "nms_state nms_thr detections m =
     fold (nms_step nms_thr detections) [0..<m] (replicate (length detections) False, [])"

definition sort_by_confidence :: "Detection list \<Rightarrow> Detection list" where
  "sort_by_confidence detections = sort_key (\<lambda>d. - confidence d) detections"

definition NonMaxSuppression :: "real \<Rightarrow> Detection list \<Rightarrow> Detection list" where
  "NonMaxSuppression nms_thr detections =
     (if detections = [] then detections
      else nms_loops nms_thr (sort_by_confidence detections))"

subsection \<open>Letterboxing\<close>

record LetterboxParams =
  scale :: real
  x_offset :: int
  y_offset :: int

record Mat =
  mat_empty :: bool
  mat_channels :: int
  cols :: int
  rows :: int

record Config =
  confidence_threshold :: real
  nms_threshold :: real
  input_width :: int
  input_height :: int
  use_memory_pool :: bool
  use_neon_preprocessing :: bool
  is_single_class_model :: bool
  num_classes :: int

text \<open>
  \<open>PreprocessImageStandard\<close>, as far as the geometry goes: the scale, the size of the
  resized image, and the offsets at which it is copied into the grey canvas. The NEON
  variant computes the same three numbers. The function stores the scale and the offsets
  in \<open>letterbox_params_\<close>.

  The arithmetic is that of the source: \<open>static_cast<float>(input_width) / image.cols\<close>
  converts both integers to \<open>float\<close> and rounds the quotient to a \<open>float\<close>;
  \<open>image.cols * scale\<close> converts the integer, rounds the product to a \<open>float\<close>, and
  \<open>static_cast<int>\<close> drops its fraction. The rounding is written out here because the
  truncation that follows turns a rounding error into a whole pixel.
\<close>

definition letterbox_scale :: "Config \<Rightarrow> Mat \<Rightarrow> real" where
  "letterbox_scale cfg img =
     min (to_float (to_float (real_of_int (input_width cfg))
                      / to_float (real_of_int (cols img))))
         (to_float (to_float (real_of_int (input_height cfg))
                      / to_float (real_of_int (rows img))))"

definition letterbox_new_width :: "Config \<Rightarrow> Mat \<Rightarrow> int" where
  "letterbox_new_width cfg img =
     static_cast_int (to_float (to_float (real_of_int (cols img)) * letterbox_scale cfg img))"

definition letterbox_new_height :: "Config \<Rightarrow> Mat \<Rightarrow> int" where
  "letterbox_new_height cfg img =
     static_cast_int (to_float (to_float (real_of_int (rows img)) * letterbox_scale cfg img))"

definition PreprocessImageStandard :: "Config \<Rightarrow> Mat \<Rightarrow> LetterboxParams" where
  "PreprocessImageStandard cfg img =
     (let the_scale = letterbox_scale cfg img;
          new_width = letterbox_new_width cfg img;
          new_height = letterbox_new_height cfg img;
          xo = (input_width cfg - new_width) sdiv 2;
          yo = (input_height cfg - new_height) sdiv 2
      in \<lparr>scale = the_scale, x_offset = xo, y_offset = yo\<rparr>)"


text \<open>The mapping back, from \<open>PostprocessYOLO\<close>: \<open>(c - offset) / scale\<close> on each axis.\<close>

definition letterbox_inverse :: "LetterboxParams \<Rightarrow> real \<times> real \<Rightarrow> real \<times> real" where
  "letterbox_inverse letterbox c =
     ((fst c - real_of_int (x_offset letterbox)) / scale letterbox,
      (snd c - real_of_int (y_offset letterbox)) / scale letterbox)"

subsection \<open>Postprocessing\<close>

definition CalculatePredictionCount :: "int \<Rightarrow> int \<Rightarrow> int" where
  "CalculatePredictionCount width height =
     (width sdiv 8) * (height sdiv 8) + (width sdiv 16) * (height sdiv 16)
       + (width sdiv 32) * (height sdiv 32)"

text \<open>
  The output tensor is read through a raw pointer: \<open>output_tensor\<close> maps an index to the
  float stored there. \<open>best_class\<close> is the loop over the class scores, on the pair of
  \<open>max_score\<close> and \<open>class_id\<close>.
\<close>

definition best_class :: "(int \<Rightarrow> real) \<Rightarrow> int \<Rightarrow> int \<Rightarrow> int \<Rightarrow> real \<times> int" where
  "best_class output_tensor num_predictions n_classes i =
     fold (\<lambda>c acc. let score = output_tensor ((4 + int c) * num_predictions + i)
                    in if score > fst acc then (score, int c) else acc)
          [0..<nat n_classes] (0, 0)"

definition decode_prediction ::
  "Config \<Rightarrow> (int \<Rightarrow> real) \<Rightarrow> LetterboxParams \<Rightarrow> int \<Rightarrow> int \<Rightarrow> Detection list
     \<Rightarrow> Detection list" where
  "decode_prediction cfg output_tensor letterbox num_predictions i detections =
     (let cx = output_tensor (0 * num_predictions + i);
          cy = output_tensor (1 * num_predictions + i);
          w = output_tensor (2 * num_predictions + i);
          h = output_tensor (3 * num_predictions + i);
          scored = (if is_single_class_model cfg
                    then (output_tensor (4 * num_predictions + i), 0)
                    else best_class output_tensor num_predictions (num_classes cfg) i)
      in if fst scored \<ge> confidence_threshold cfg then
           let orig = letterbox_inverse letterbox (cx, cy);
               w_orig = w / scale letterbox;
               h_orig = h / scale letterbox
           in detections @
                [\<lparr>bbox = \<lparr>rect_x = fst orig - w_orig / 2, rect_y = snd orig - h_orig / 2,
                          rect_width = w_orig, rect_height = h_orig\<rparr>,
                  confidence = fst scored, class_id = snd scored\<rparr>]
         else detections)"

definition PostprocessYOLO ::
  "Config \<Rightarrow> (int \<Rightarrow> real) \<Rightarrow> int \<Rightarrow> LetterboxParams \<Rightarrow> Detection list" where
  "PostprocessYOLO cfg output_tensor output_size letterbox =
     (let num_predictions = CalculatePredictionCount (input_width cfg) (input_height cfg);
          detections =
            fold (\<lambda>i. decode_prediction cfg output_tensor letterbox num_predictions (int i))
                 [0..<nat num_predictions] []
      in NonMaxSuppression (nms_threshold cfg) detections)"

subsection \<open>The memory pool and Detect\<close>

record MemoryPool =
  input_buffer_in_use :: bool
  output_buffer_in_use :: bool

text \<open>
  \<open>MemoryPool::GetInputBuffer\<close> throws \<open>std::runtime_error\<close> (\<open>None\<close>) when the input
  buffer is in use, and otherwise marks it in use. \<open>MemoryPool::ReleaseBuffers\<close> clears
  both flags.
\<close>

definition pool_GetInputBuffer :: "MemoryPool \<Rightarrow> MemoryPool option" where
  "pool_GetInputBuffer pool =
     (if input_buffer_in_use pool then None
      else Some (pool\<lparr>input_buffer_in_use := True\<rparr>))"

definition pool_ReleaseBuffers :: "MemoryPool \<Rightarrow> MemoryPool" where
  "pool_ReleaseBuffers pool = pool\<lparr>input_buffer_in_use := False, output_buffer_in_use := False\<rparr>"

text \<open>
  The detector object: \<open>session_present\<close> says whether \<open>session_\<close> is non-null, and
  \<open>memory_pool\<close> is \<open>None\<close> for a null \<open>memory_pool_\<close>.
\<close>

record ONNXRuntimeDetector =
  config :: Config
  letterbox_params :: LetterboxParams
  session_present :: bool
  memory_pool :: "MemoryPool option"
  total_inferences :: nat

text \<open>Where the input tensor of a call lives.\<close>

datatype buffer_source = PoolInputBuffer | ThreadLocalFallback

text \<open>
  \<open>ONNXRuntimeDetector::GetInputBuffer\<close>: the pool's buffer when there is a pool and its
  \<open>GetInputBuffer\<close> does not throw; the exception is caught and the \<open>thread_local\<close> vector
  is used instead, as it is when there is no pool.
\<close>

definition GetInputBuffer :: "ONNXRuntimeDetector \<Rightarrow> buffer_source \<times> ONNXRuntimeDetector" where
  "GetInputBuffer det =
     (case memory_pool det of
        None \<Rightarrow> (ThreadLocalFallback, det)
      | Some pool \<Rightarrow>
          (case pool_GetInputBuffer pool of
             Some pool' \<Rightarrow> (PoolInputBuffer, det\<lparr>memory_pool := Some pool'\<rparr>)
           | None \<Rightarrow> (ThreadLocalFallback, det)))"

definition ReleaseBuffers :: "ONNXRuntimeDetector \<Rightarrow> ONNXRuntimeDetector" where
  "ReleaseBuffers det =
     (case memory_pool det of
        None \<Rightarrow> det
      | Some pool \<Rightarrow> det\<lparr>memory_pool := Some (pool_ReleaseBuffers pool)\<rparr>)"

text \<open>
  One output of the runtime: whether its data pointer is null, the floats behind the
  pointer, and its shape. \<open>detect_env\<close> is what the world answers during one call of
  \<open>Detect\<close>: whether \<open>data()\<close> of the input buffer is null, and what \<open>session_->Run\<close> does
  with the input tensor, an exception (\<open>Inl\<close>) or the vector of outputs.
\<close>

record OrtValue =
  tensor_data_null :: bool
  tensor_data :: "int \<Rightarrow> real"
  tensor_shape :: "int list"

record detect_env =
  input_data_null :: bool
  session_Run :: "buffer_source \<Rightarrow> string + OrtValue list"

text \<open>
  What a call did, in order: which buffer it took and whether it ran the inference and
  released the pool.
\<close>

datatype detect_call = TookBuffer buffer_source | RanInference | ReleasedBuffers

datatype 'a outcome = Returns 'a | Throws string

text \<open>
  \<open>Detect\<close>. The result is what the call returns or throws, the detector afterwards, and
  the calls it made. The timing of the metrics is left out.
\<close>

definition Detect ::
  "detect_env \<Rightarrow> ONNXRuntimeDetector \<Rightarrow> Mat
     \<Rightarrow> Detection list outcome \<times> ONNXRuntimeDetector \<times> detect_call list" where
  "Detect env det img =
     (if mat_empty img then (Returns [], det, [])
      else if mat_channels img \<noteq> 3 then (Returns [], det, [])
      else if \<not> session_present det then (Returns [], det, [])
      else
        let got = GetInputBuffer det;
            det1 = snd got;
            calls1 = [TookBuffer (fst got)]
        in if input_data_null env then (Returns [], det1, calls1)
           else
             let det2 = det1\<lparr>letterbox_params := PreprocessImageStandard (config det1) img\<rparr>;
                 calls2 = calls1 @ [RanInference]
             in case session_Run env (fst got) of
                  Inl what \<Rightarrow> (Throws what, det2, calls2)
                | Inr output_tensors \<Rightarrow>
                    if output_tensors = [] then (Returns [], det2, calls2)
                    else if tensor_data_null (hd output_tensors) then (Returns [], det2, calls2)
                    else if tensor_shape (hd output_tensors) = [] then (Returns [], det2, calls2)
                    else
                      let output_size = fold (\<lambda>d acc. acc * d) (tensor_shape (hd output_tensors)) 1
                      in if output_size \<le> 0 then (Returns [], det2, calls2)
                         else
                           let detections = PostprocessYOLO (config det2)
                                 (tensor_data (hd output_tensors)) output_size
                                 (letterbox_params det2);
                               det3 = ReleaseBuffers det2
                           in (Returns detections,
                               det3\<lparr>total_inferences := total_inferences det3 + 1\<rparr>,
                               calls2 @ [ReleasedBuffers]))"

subsection \<open>Example detections and detectors\<close>

definition box :: "real \<Rightarrow> real \<Rightarrow> real \<Rightarrow> real \<Rightarrow> Rect2f" where
  "box x y w h = \<lparr>rect_x = x, rect_y = y, rect_width = w, rect_height = h\<rparr>"

definition det_a :: Detection where
  "det_a = \<lparr>bbox = box 0 0 10 10, confidence = 9 / 10, class_id = 0\<rparr>"

definition det_b :: Detection where
  "det_b = \<lparr>bbox = box 1 1 10 10, confidence = 8 / 10, class_id = 0\<rparr>"

definition det_c :: Detection where
  "det_c = \<lparr>bbox = box 50 50 10 10, confidence = 7 / 10, class_id = 0\<rparr>"

definition config_640 :: Config where
  "config_640 =
     \<lparr>confidence_threshold = 1 / 2, nms_threshold = 4 / 10,
      input_width = 640, input_height = 640,
      use_memory_pool = True, use_neon_preprocessing = False,
      is_single_class_model = True, num_classes = 1\<rparr>"

definition image_of_size :: "int \<Rightarrow> int \<Rightarrow> Mat" where
  "image_of_size w h = \<lparr>mat_empty = False, mat_channels = 3, cols = w, rows = h\<rparr>"

text \<open>
  A detector that is ready (session created, pool free), and two answers of the runtime:
  one output of shape [1, 0, 6], which holds no element, and one exception.
\<close>

definition detector_ready :: ONNXRuntimeDetector where
  "detector_ready =
     \<lparr>config = config_640,
      letterbox_params = \<lparr>scale = 1, x_offset = 0, y_offset = 0\<rparr>,
      session_present = True,
      memory_pool = Some \<lparr>input_buffer_in_use = False, output_buffer_in_use = False\<rparr>,
      total_inferences = 0\<rparr>"

definition env_no_elements :: detect_env where
  "env_no_elements =
     \<lparr>input_data_null = False,
      session_Run = (\<lambda>buffer. Inr [\<lparr>tensor_data_null = False, tensor_data = (\<lambda>i. 0),
                                     tensor_shape = [1, 0, 6]\<rparr>])\<rparr>"

definition env_run_throws :: detect_env where
  "env_run_throws =
     \<lparr>input_data_null = False, session_Run = (\<lambda>buffer. Inl ''invalid input shape'')\<rparr>"

section \<open>Calibrator (gs\_calibration.h, gs\_calibration.cpp)\<close>

type_synonym Vec3d = "real \<times> real \<times> real"
type_synonym Vec2d = "real \<times> real"

definition v0 :: "Vec3d \<Rightarrow> real" where "v0 p = fst p"
definition v1 :: "Vec3d \<Rightarrow> real" where "v1 p = fst (snd p)"
definition v2 :: "Vec3d \<Rightarrow> real" where "v2 p = snd (snd p)"

text \<open>
  \<open>kCalibrationRigTypeUnknown\<close> also stands for every integer of the configuration file
  that is none of 1, 2 and 3: the \<open>switch\<close> sends them all to the \<open>default\<close> branch.
\<close>

datatype CalibrationRigType =
    kStraightForwardCameras
  | kSkewedCamera1
  | kSCustomRig
  | kCalibrationRigTypeUnknown

datatype GsCameraNumber = kGsCamera1 | kGsCamera2

text \<open>
  The static members of \<open>GolfSimCalibration\<close> that the constructor reads from the
  configuration, the enclosure version of \<open>GolfSimConfiguration\<close> (\<open>enclosure_is_v2\<close>), and
  the two radius offsets of \<open>GolfSimCamera\<close>.
\<close>

record calibration_constants =
  kCalibrationRigType :: CalibrationRigType
  enclosure_is_v2 :: bool
  kCustomCalibrationRigPositionFromCamera1 :: Vec3d
  kCustomCalibrationRigPositionFromCamera2 :: Vec3d
  kAutoCalibrationBallPositionFromCam1MetersForStraightOutCamerasV2Enclosure :: Vec3d
  kAutoCalibrationBallPositionFromCam2MetersForStraightOutCamerasV2Enclosure :: Vec3d
  kAutoCalibrationBallPositionFromCam1MetersForSkewedCamerasV2Enclosure :: Vec3d
  kAutoCalibrationBallPositionFromCam2MetersForSkewedCamerasV2Enclosure :: Vec3d
  kAutoCalibrationBallPositionFromCam1MetersForStraightOutCamerasV3Enclosure :: Vec3d
  kAutoCalibrationBallPositionFromCam2MetersForStraightOutCamerasV3Enclosure :: Vec3d
  kAutoCalibrationBallPositionFromCam1MetersForSkewedCamerasV3Enclosure :: Vec3d
  kAutoCalibrationBallPositionFromCam2MetersForSkewedCamerasV3Enclosure :: Vec3d
  kNumberPicturesForFocalLengthAverage :: int
  kNumberOfCalibrationFailuresToTolerate :: int
  kMinRadiusOffset :: int
  kMaxRadiusOffset :: int

text \<open>
  \<open>RetrieveAutoCalibrationConstants\<close>: \<open>None\<close> is \<open>return false\<close>, otherwise the value of
  \<open>kFinalAutoCalibrationBallPositionFromCameraMeters\<close>.
\<close>

definition RetrieveAutoCalibrationConstants ::
  "calibration_constants \<Rightarrow> GsCameraNumber \<Rightarrow> Vec3d option" where
  "RetrieveAutoCalibrationConstants k camera_number =
     (case kCalibrationRigType k of
        kStraightForwardCameras \<Rightarrow>
          Some (if camera_number = kGsCamera1
                then (if enclosure_is_v2 k
                      then kAutoCalibrationBallPositionFromCam1MetersForStraightOutCamerasV2Enclosure k
                      else kAutoCalibrationBallPositionFromCam1MetersForStraightOutCamerasV3Enclosure k)
                else (if enclosure_is_v2 k
                      then kAutoCalibrationBallPositionFromCam2MetersForStraightOutCamerasV2Enclosure k
                      else kAutoCalibrationBallPositionFromCam2MetersForStraightOutCamerasV3Enclosure k))
      | kSkewedCamera1 \<Rightarrow>
          Some (if camera_number = kGsCamera1
                then (if enclosure_is_v2 k
                      then kAutoCalibrationBallPositionFromCam1MetersForSkewedCamerasV2Enclosure k
                      else kAutoCalibrationBallPositionFromCam1MetersForSkewedCamerasV3Enclosure k)
                else (if enclosure_is_v2 k
                      then kAutoCalibrationBallPositionFromCam2MetersForSkewedCamerasV2Enclosure k
                      else kAutoCalibrationBallPositionFromCam2MetersForSkewedCamerasV3Enclosure k))
      | kSCustomRig \<Rightarrow>
          Some (if camera_number = kGsCamera1
                then kCustomCalibrationRigPositionFromCamera1 k
                else kCustomCalibrationRigPositionFromCamera2 k)
      | kCalibrationRigTypeUnknown \<Rightarrow> None)"

text \<open>
  A detected ball: the circle \<open>ball_circle_\<close> with its centre and radius in pixels. What
  \<open>BallImageProc::GetBall\<close> answers on a picture: its result and the balls it returns.
\<close>

record GolfBall =
  ball_x :: real
  ball_y :: real
  ball_radius :: real

record GetBall_answer =
  getball_result :: bool
  return_balls :: "GolfBall list"

text \<open>
  One still picture: whether \<open>TakeStillPicture\<close> succeeded, whether the image is empty,
  and what \<open>GetBall\<close> finds on it in the focal-length loop.
\<close>

record still_picture =
  take_ok :: bool
  picture_empty :: bool
  focal_GetBall :: GetBall_answer

text \<open>
  Everything else the calibrator gets from outside these sources: the image processor
  (null or not), the pictures in the order they are taken, the functions of \<open>CvUtils\<close>
  and \<open>GolfSimCamera\<close> it calls, the resolution of the camera, what \<open>GetBall\<close> finds on
  the last picture once the radius range has been narrowed, the exit status of the copy
  command and the result of \<open>WriteTreeToFile\<close>.
\<close>

record calibration_env =
  image_processor_null :: bool
  pictures :: "nat \<Rightarrow> still_picture"
  GetDistance :: "Vec3d \<Rightarrow> real"
  GetExpectedBallRadiusPixels :: "real \<Rightarrow> real"
  computeFocalDistanceFromBallData :: "real \<Rightarrow> real \<Rightarrow> real"
  convertXDistanceToMeters :: "real \<Rightarrow> real \<Rightarrow> real"
  convertYDistanceToMeters :: "real \<Rightarrow> real \<Rightarrow> real"
  RadiansToDegrees :: "real \<Rightarrow> real"
  resolution_x :: int
  resolution_y :: int
  angles_GetBall :: GetBall_answer
  cp_command_result :: int
  WriteTreeToFile_ok :: bool

text \<open>
  \<open>DetermineFocalLengthForAutoCalibration\<close>: -1 when no ball is found, when the distance
  to the ball is not set, or when the radius is below one pixel.
\<close>

definition DetermineFocalLengthForAutoCalibration ::
  "calibration_env \<Rightarrow> Vec3d \<Rightarrow> still_picture \<Rightarrow> real" where
  "DetermineFocalLengthForAutoCalibration env final_position color_image =
     (if \<not> getball_result (focal_GetBall color_image)
         \<or> return_balls (focal_GetBall color_image) = [] then - 1
      else
        let ball = hd (return_balls (focal_GetBall color_image));
            distance_direct_to_ball = GetDistance env final_position
        in if distance_direct_to_ball \<le> 1 / 10000 then - 1
           else
             let measured_radius_pixels = ball_radius ball
             in if measured_radius_pixels < 1 then - 1
                else computeFocalDistanceFromBallData env measured_radius_pixels
                       distance_direct_to_ball)"

text \<open>
  The loop that samples the focal length. \<open>i\<close> is the loop counter, \<open>taken\<close> counts the
  pictures taken so far. As in the source, the branch for a failed sample decrements
  \<open>i\<close> and then runs on into the statements that count the sample and add it to the sum.
  \<open>None\<close> is a \<open>return false\<close> inside the loop; otherwise the sum, the number of samples
  and the number of pictures come back.
\<close>

function focal_length_loop ::
  "calibration_env \<Rightarrow> calibration_constants \<Rightarrow> Vec3d \<Rightarrow> int \<Rightarrow> int \<Rightarrow> nat \<Rightarrow> int \<Rightarrow> int
     \<Rightarrow> real \<Rightarrow> (real \<times> int \<times> nat) option" where
  "focal_length_loop env k final_position number_attempts i taken number_failures
       number_samples average_focal_length =
     (if i < number_attempts then
        if \<not> take_ok (pictures env taken) then None
        else
          let focal_length =
                DetermineFocalLengthForAutoCalibration env final_position (pictures env taken)
          in if focal_length < 0 then
               if number_failures + 1 > kNumberOfCalibrationFailuresToTolerate k then None
               else
                 focal_length_loop env k final_position number_attempts (i - 1 + 1)
                   (Suc taken) (number_failures + 1) (number_samples + 1)
                   (average_focal_length + focal_length)
             else
               focal_length_loop env k final_position number_attempts (i + 1)
                 (Suc taken) number_failures (number_samples + 1)
                 (average_focal_length + focal_length)
      else Some (average_focal_length, number_samples, taken))"
  by pat_completeness auto
termination
  by (relation "measure (\<lambda>(env, k, final_position, number_attempts, i, taken,
                            number_failures, number_samples, average_focal_length).
          nat (number_attempts - i)
          + nat (kNumberOfCalibrationFailuresToTolerate k + 1 - number_failures))")
     auto

text \<open>\<open>std::round\<close> rounds halves away from zero.\<close>

definition std_round :: "real \<Rightarrow> real" where
  "std_round x = (if x \<ge> 0 then real_of_int \<lfloor>x + 1 / 2\<rfloor> else real_of_int \<lceil>x - 1 / 2\<rceil>)"

text \<open>
  The two angles that \<open>DetermineCameraAngles\<close> computes from the ball it found and the
  known position of the ball, before the range check. \<open>atan\<close> and \<open>sqrt\<close> are the functions
  of the mathematics library. (A position with a zero z distance makes the code divide by
  zero; that case is outside this model.)
\<close>

definition computed_camera_angles :: "calibration_env \<Rightarrow> Vec3d \<Rightarrow> GolfBall \<Rightarrow> Vec2d" where
  "computed_camera_angles env final_position ball =
     (let xFromCameraCenter = ball_x ball - std_round (real_of_int (resolution_x env) / 2);
          yFromCameraCenter = ball_y ball - std_round (real_of_int (resolution_y env) / 2);
          distance_direct_to_ball = GetDistance env final_position;
          xDistanceFromCamCenter =
            convertXDistanceToMeters env distance_direct_to_ball xFromCameraCenter;
          yDistanceFromCamCenter =
            convertYDistanceToMeters env distance_direct_to_ball yFromCameraCenter;
          perspective0 = xDistanceFromCamCenter;
          perspective1 = - yDistanceFromCamCenter;
          x_angle_camera = - RadiansToDegrees env (arctan (perspective0 / distance_direct_to_ball));
          y_angle_camera = RadiansToDegrees env (arctan (perspective1 / distance_direct_to_ball));
          x_angle_lm = - RadiansToDegrees env (arctan (v0 final_position / v2 final_position));
          horizontal_distance = sqrt ((v0 final_position)\<^sup>2 + (v2 final_position)\<^sup>2);
          y_angle_lm = RadiansToDegrees env (arctan (v1 final_position / horizontal_distance))
      in (x_angle_lm - x_angle_camera, y_angle_lm - y_angle_camera))"

definition kMaxReasonableAngle :: real where "kMaxReasonableAngle = 45"

text \<open>\<open>DetermineCameraAngles\<close>: \<open>None\<close> is \<open>return false\<close>.\<close>

definition DetermineCameraAngles ::
  "calibration_env \<Rightarrow> Vec3d \<Rightarrow> still_picture \<Rightarrow> Vec2d option" where
  "DetermineCameraAngles env final_position color_image =
     (if picture_empty color_image then None
      else if \<not> getball_result (angles_GetBall env) \<or> return_balls (angles_GetBall env) = []
      then None
      else
        let ball = hd (return_balls (angles_GetBall env))
        in if GetDistance env final_position \<le> 1 / 10000 then None
           else if v2 final_position < 0 then None
           else
             let camera_angles = computed_camera_angles env final_position ball
             in if \<bar>fst camera_angles\<bar> > kMaxReasonableAngle
                   \<or> \<bar>snd camera_angles\<bar> > kMaxReasonableAngle
                then None
                else Some camera_angles)"

text \<open>
  What \<open>AutoCalibrateCamera\<close> does to the configuration, the web collaborator and the
  files, in the order it does it.
\<close>

datatype calibration_effect =
    SetTreeValue_focal_length string real
  | SetTreeValue_angles string Vec2d
  | Web_UpdateCalibration_focal_length string real
  | Web_UpdateCalibration_angles string "real list"
  | BackupConfigFile
  | WriteTreeToFile

definition camera_number_string :: "GsCameraNumber \<Rightarrow> string" where
  "camera_number_string n = (if n = kGsCamera1 then ''1'' else ''2'')"

definition kMinFocalLength :: real where "kMinFocalLength = 2"
definition kMaxFocalLength :: real where "kMaxFocalLength = 50"
definition kMaxReasonableRadius :: real where "kMaxReasonableRadius = 1000"

text \<open>
  The first part of \<open>AutoCalibrateCamera\<close>, up to the average of the focal length. \<open>None\<close>
  is a \<open>return false\<close>; otherwise the average, the position of the ball and the last
  picture taken come back. The number of attempts is the one of the build for the Pi. The
  writes to the radius range of the image processor are not modelled: they only influence
  what \<open>GetBall\<close> finds, and that is given.
\<close>

definition average_focal_length_stage ::
  "calibration_env \<Rightarrow> calibration_constants \<Rightarrow> GsCameraNumber
     \<Rightarrow> (real \<times> Vec3d \<times> still_picture) option" where
  "average_focal_length_stage env k camera_number =
     (case RetrieveAutoCalibrationConstants k camera_number of
        None \<Rightarrow> None
      | Some final_position \<Rightarrow>
          let number_attempts =
                (if kNumberPicturesForFocalLengthAverage k > 0
                 then kNumberPicturesForFocalLengthAverage k else 10)
          in if image_processor_null env then None
             else
               let distance_direct_to_ball = GetDistance env final_position
               in if distance_direct_to_ball \<le> 0 then None
                  else
                    let expectedRadius = GetExpectedBallRadiusPixels env distance_direct_to_ball
                    in if expectedRadius \<le> 0 \<or> expectedRadius > kMaxReasonableRadius then None
                       else
                         let max_ball_radius = static_cast_int expectedRadius + kMaxRadiusOffset k
                         in if max_ball_radius \<le> 0
                               \<or> max_ball_radius > static_cast_int kMaxReasonableRadius
                            then None
                            else
                              (case focal_length_loop env k final_position number_attempts
                                      0 0 0 0 0 of
                                 None \<Rightarrow> None
                               | Some (focal_sum, number_samples, taken) \<Rightarrow>
                                   if number_samples = 0 then None
                                   else Some (focal_sum / real_of_int number_samples,
                                              final_position, pictures env (taken - 1))))"

text \<open>
  \<open>AutoCalibrateCamera\<close>: the value it returns and the effects it had.
\<close>

definition AutoCalibrateCamera ::
  "calibration_env \<Rightarrow> calibration_constants \<Rightarrow> GsCameraNumber
     \<Rightarrow> bool \<times> calibration_effect list" where
  "AutoCalibrateCamera env k camera_number =
     (case average_focal_length_stage env k camera_number of
        None \<Rightarrow> (False, [])
      | Some (average_focal_length, final_position, color_image) \<Rightarrow>
          if average_focal_length < kMinFocalLength \<or> average_focal_length > kMaxFocalLength
          then (False, [])
          else
            (case DetermineCameraAngles env final_position color_image of
               None \<Rightarrow> (False, [])
             | Some camera_angles \<Rightarrow>
                 let focal_length_tag_name =
                       ''gs_config.cameras.kCamera'' @ camera_number_string camera_number
                         @ ''FocalLength'';
                     camera_angles_tag_name =
                       ''gs_config.cameras.kCamera'' @ camera_number_string camera_number
                         @ ''Angles'';
                     effects =
                       [SetTreeValue_focal_length focal_length_tag_name average_focal_length,
                        SetTreeValue_angles camera_angles_tag_name camera_angles,
                        Web_UpdateCalibration_focal_length focal_length_tag_name
                          average_focal_length,
                        Web_UpdateCalibration_angles camera_angles_tag_name
                          [fst camera_angles, snd camera_angles]]
                 in if cp_command_result env \<noteq> 0 then (False, effects)
                    else if \<not> WriteTreeToFile_ok env
                    then (False, effects @ [BackupConfigFile, WriteTreeToFile])
                    else (True, effects @ [BackupConfigFile, WriteTreeToFile])))"

subsection \<open>Example calibrations\<close>

text \<open>
  A custom rig; one picture is asked for and two failures are tolerated. The ball is found
  with a radius of 50 pixels at the centre of a 1456 by 1088 image, and distances in
  pixels are converted to metres in proportion.
\<close>

definition ball_at_centre :: GolfBall where
  "ball_at_centre = \<lparr>ball_x = 728, ball_y = 544, ball_radius = 50\<rparr>"

definition picture_with_ball :: still_picture where
  "picture_with_ball =
     \<lparr>take_ok = True, picture_empty = False,
      focal_GetBall = \<lparr>getball_result = True, return_balls = [ball_at_centre]\<rparr>\<rparr>"

definition picture_without_ball :: still_picture where
  "picture_without_ball =
     \<lparr>take_ok = True, picture_empty = False,
      focal_GetBall = \<lparr>getball_result = False, return_balls = []\<rparr>\<rparr>"

definition rig_custom :: "Vec3d \<Rightarrow> calibration_constants" where
  "rig_custom position =
     \<lparr>kCalibrationRigType = kSCustomRig, enclosure_is_v2 = True,
      kCustomCalibrationRigPositionFromCamera1 = position,
      kCustomCalibrationRigPositionFromCamera2 = position,
      kAutoCalibrationBallPositionFromCam1MetersForStraightOutCamerasV2Enclosure = (0, 0, 0),
      kAutoCalibrationBallPositionFromCam2MetersForStraightOutCamerasV2Enclosure = (0, 0, 0),
      kAutoCalibrationBallPositionFromCam1MetersForSkewedCamerasV2Enclosure = (0, 0, 0),
      kAutoCalibrationBallPositionFromCam2MetersForSkewedCamerasV2Enclosure = (0, 0, 0),
      kAutoCalibrationBallPositionFromCam1MetersForStraightOutCamerasV3Enclosure = (0, 0, 0),
      kAutoCalibrationBallPositionFromCam2MetersForStraightOutCamerasV3Enclosure = (0, 0, 0),
      kAutoCalibrationBallPositionFromCam1MetersForSkewedCamerasV3Enclosure = (0, 0, 0),
      kAutoCalibrationBallPositionFromCam2MetersForSkewedCamerasV3Enclosure = (0, 0, 0),
      kNumberPicturesForFocalLengthAverage = 1,
      kNumberOfCalibrationFailuresToTolerate = 2,
      kMinRadiusOffset = 10, kMaxRadiusOffset = 10\<rparr>"

definition env_calibration :: "real \<Rightarrow> real \<Rightarrow> (nat \<Rightarrow> still_picture) \<Rightarrow> calibration_env" where
  "env_calibration distance focal shots =
     \<lparr>image_processor_null = False,
      pictures = shots,
      GetDistance = (\<lambda>p. distance),
      GetExpectedBallRadiusPixels = (\<lambda>d. 50),
      computeFocalDistanceFromBallData = (\<lambda>r d. focal),
      convertXDistanceToMeters = (\<lambda>d px. px * d / 1000),
      convertYDistanceToMeters = (\<lambda>d px. px * d / 1000),
      RadiansToDegrees = (\<lambda>r. r * 180 / pi),
      resolution_x = 1456, resolution_y = 1088,
      angles_GetBall = \<lparr>getball_result = True, return_balls = [ball_at_centre]\<rparr>,
      cp_command_result = 0,
      WriteTreeToFile_ok = True\<rparr>"

text \<open>
  The first picture shows no ball and the second one does, with a focal length of 7 mm;
  the ball of the rig is straight ahead at one metre.
\<close>

definition env_first_picture_misses :: calibration_env where
  "env_first_picture_misses =
     env_calibration 1 7 (\<lambda>n. if n = 0 then picture_without_ball else picture_with_ball)"

text \<open>
  The ball of the rig is one metre ahead and the square root of three metres to the
  left, at a distance of two metres: seen at the centre of the image, it puts the camera
  at an angle of 60 degrees.
\<close>

definition env_camera_turned_60 :: calibration_env where
  "env_camera_turned_60 = env_calibration 2 6 (\<lambda>n. picture_with_ball)"

section \<open>Trajectory calculator (gs\_trajectory\_calc.h, gs\_trajectory\_calc.cpp)\<close>

record TrajectoryInput =
  initial_velocity_mph :: real
  vertical_launch_angle_deg :: real
  horizontal_launch_angle_deg :: real
  backspin_rpm :: real
  sidespin_rpm :: real
  temperature_f :: "real option"
  elevation_ft :: "real option"
  wind_speed_mph :: "real option"
  wind_direction_deg :: "real option"
  humidity_percent :: "real option"
  pressure_inhg :: "real option"

record TrajectoryResult =
  carry_distance_yards :: real
  flight_time_seconds :: real
  landing_angle_deg :: real
  max_height_yards :: real
  calculation_successful :: bool
  error_message :: string

definition DEFAULT_TEMPERATURE_F :: real where "DEFAULT_TEMPERATURE_F = 70"
definition DEFAULT_ELEVATION_FT :: real where "DEFAULT_ELEVATION_FT = 0"
definition DEFAULT_WIND_SPEED_MPH :: real where "DEFAULT_WIND_SPEED_MPH = 0"
definition DEFAULT_WIND_DIRECTION_DEG :: real where "DEFAULT_WIND_DIRECTION_DEG = 0"
definition DEFAULT_HUMIDITY_PERCENT :: real where "DEFAULT_HUMIDITY_PERCENT = 50"
definition DEFAULT_PRESSURE_INHG :: real where "DEFAULT_PRESSURE_INHG = 2992 / 100"

definition MIN_VELOCITY_MPH :: real where "MIN_VELOCITY_MPH = 50"
definition MAX_VELOCITY_MPH :: real where "MAX_VELOCITY_MPH = 250"
definition MIN_LAUNCH_ANGLE_DEG :: real where "MIN_LAUNCH_ANGLE_DEG = - 10"
definition MAX_LAUNCH_ANGLE_DEG :: real where "MAX_LAUNCH_ANGLE_DEG = 60"
definition MAX_SPIN_RPM :: real where "MAX_SPIN_RPM = 10000"

text \<open>
  \<open>validateInput\<close>: four checks in the order of the source, each an early \<open>return false\<close>.
  The three calls of \<open>abs\<close> are unqualified, and the file includes \<open><cmath>\<close> without a
  \<open>using\<close> for \<open>std::abs\<close>: the name in the global namespace is the C function
  \<open>int abs(int)\<close>. The \<open>double\<close> argument is converted to \<open>int\<close>, which drops its
  fraction, and the absolute value of that integer is compared with the bound. (For a
  \<open>double\<close> whose integer part does not fit into an \<open>int\<close> the conversion is undefined;
  the model gives the mathematical value.)
\<close>

definition abs_int :: "real \<Rightarrow> int" where
  "abs_int x = \<bar>static_cast_int x\<bar>"

definition validateInput :: "TrajectoryInput \<Rightarrow> bool" where
  "validateInput input =
     (if initial_velocity_mph input < MIN_VELOCITY_MPH
         \<or> initial_velocity_mph input > MAX_VELOCITY_MPH then False
      else if vertical_launch_angle_deg input < MIN_LAUNCH_ANGLE_DEG
         \<or> vertical_launch_angle_deg input > MAX_LAUNCH_ANGLE_DEG then False
      else if real_of_int (abs_int (horizontal_launch_angle_deg input)) > 45 then False
      else if real_of_int (abs_int (backspin_rpm input)) > MAX_SPIN_RPM
         \<or> real_of_int (abs_int (sidespin_rpm input)) > MAX_SPIN_RPM then False
      else True)"

definition applyDefaults :: "TrajectoryInput \<Rightarrow> TrajectoryInput" where
  "applyDefaults input =
     input\<lparr>temperature_f :=
              (if temperature_f input = None then Some DEFAULT_TEMPERATURE_F
               else temperature_f input),
            elevation_ft :=
              (if elevation_ft input = None then Some DEFAULT_ELEVATION_FT
               else elevation_ft input),
            wind_speed_mph :=
              (if wind_speed_mph input = None then Some DEFAULT_WIND_SPEED_MPH
               else wind_speed_mph input),
            wind_direction_deg :=
              (if wind_direction_deg input = None then Some DEFAULT_WIND_DIRECTION_DEG
               else wind_direction_deg input),
            humidity_percent :=
              (if humidity_percent input = None then Some DEFAULT_HUMIDITY_PERCENT
               else humidity_percent input),
            pressure_inhg :=
              (if pressure_inhg input = None then Some DEFAULT_PRESSURE_INHG
               else pressure_inhg input)\<rparr>"

text \<open>The two structs handed to the physics library (libshotscope).\<close>

record golfBall =
  x0 :: real
  y0 :: real
  z0 :: real
  exitSpeed :: real
  launchAngle :: real
  direction :: real
  backspin :: real
  sidespin :: real

record atmosphericData =
  temp :: real
  elevation :: real
  vWind :: real
  phiWind :: real
  hWind :: real
  relHumidity :: real
  pressure :: real

type_synonym Vector3D = "real \<times> real \<times> real"

definition v3_1 :: "Vector3D \<Rightarrow> real" where "v3_1 p = fst (snd p)"
definition v3_2 :: "Vector3D \<Rightarrow> real" where "v3_2 p = snd (snd p)"

text \<open>
  The physics library is outside these sources. A run of \<open>Simulator\<close> built from a ball and
  the atmosphere either returns or throws a \<open>std::exception\<close>, whose \<open>what()\<close> text is the
  \<open>Inl\<close> value. \<open>lib_atan2\<close> is \<open>std::atan2\<close>, \<open>lib_pi\<close> is \<open>M_PI\<close>.
\<close>

record libshotscope =
  runSimulationLanding :: "golfBall \<Rightarrow> atmosphericData \<Rightarrow> string + Vector3D"
  runSimulation :: "golfBall \<Rightarrow> atmosphericData \<Rightarrow> string + Vector3D list"
  lib_atan2 :: "real \<Rightarrow> real \<Rightarrow> real"
  lib_pi :: real

definition to_golfBall :: "TrajectoryInput \<Rightarrow> golfBall" where
  "to_golfBall ci =
     \<lparr>x0 = 0, y0 = 0, z0 = 0,
      exitSpeed = initial_velocity_mph ci,
      launchAngle = vertical_launch_angle_deg ci,
      direction = horizontal_launch_angle_deg ci,
      backspin = backspin_rpm ci,
      sidespin = sidespin_rpm ci\<rparr>"

definition to_atmosphericData :: "TrajectoryInput \<Rightarrow> atmosphericData" where
  "to_atmosphericData ci =
     \<lparr>temp = value_or (temperature_f ci) DEFAULT_TEMPERATURE_F,
      elevation = value_or (elevation_ft ci) DEFAULT_ELEVATION_FT,
      vWind = value_or (wind_speed_mph ci) DEFAULT_WIND_SPEED_MPH,
      phiWind = value_or (wind_direction_deg ci) DEFAULT_WIND_DIRECTION_DEG,
      hWind = 0,
      relHumidity = value_or (humidity_percent ci) DEFAULT_HUMIDITY_PERCENT,
      pressure = value_or (pressure_inhg ci) DEFAULT_PRESSURE_INHG\<rparr>"

text \<open>
  The metrics computed from a non-empty trajectory: the flight time is the index of the
  first point from index 1 on that has reached the landing distance (the number of points
  when there is none) times 0.01; the maximum height starts from 0; the landing angle is
  set only when there are two points.
\<close>

definition trajectory_metrics ::
  "libshotscope \<Rightarrow> Vector3D \<Rightarrow> Vector3D list \<Rightarrow> TrajectoryResult \<Rightarrow> TrajectoryResult" where
  "trajectory_metrics lib landing trajectory result =
     (if trajectory = [] then result
      else
        let landing_distance = v3_1 landing;
            flight = (case List.find (\<lambda>i. v3_1 (trajectory ! i) \<ge> landing_distance)
                                     [1..<length trajectory] of
                        Some i \<Rightarrow> real i * (1 / 100)
                      | None \<Rightarrow> real (length trajectory) * (1 / 100));
            max_height = fold (\<lambda>point m. if v3_2 point > m then v3_2 point else m)
                              trajectory 0;
            r1 = result\<lparr>flight_time_seconds := flight, max_height_yards := max_height\<rparr>
        in if length trajectory \<ge> 2 then
             let last = trajectory ! (length trajectory - 1);
                 prev = trajectory ! (length trajectory - 2);
                 dz = v3_2 last - v3_2 prev;
                 dy = v3_1 last - v3_1 prev
             in r1\<lparr>landing_angle_deg := lib_atan2 lib dz dy * 180 / lib_pi lib\<rparr>
           else r1)"

text \<open>
  \<open>calculateCarry\<close>. The local \<open>TrajectoryResult result;\<close> is default-initialised: its
  string is empty and its numeric fields hold whatever was there; \<open>r0\<close> stands for those
  contents. The \<open>try\<close> block catches every \<open>std::exception\<close>.
\<close>

definition calculateCarry ::
  "libshotscope \<Rightarrow> TrajectoryResult \<Rightarrow> TrajectoryInput \<Rightarrow> TrajectoryResult" where
  "calculateCarry lib r0 input =
     (let result = r0\<lparr>error_message := []\<rparr> in
      if \<not> validateInput input then
        result\<lparr>calculation_successful := False,
               error_message := ''Invalid input parameters'',
               carry_distance_yards := 0\<rparr>
      else
        let complete_input = applyDefaults input;
            ball = to_golfBall complete_input;
            atmos = to_atmosphericData complete_input;
            failed = (\<lambda>what. result\<lparr>calculation_successful := False,
                          error_message := ''libshotscope calculation error: '' @ what,
                          carry_distance_yards := 0\<rparr>)
        in case runSimulationLanding lib ball atmos of
             Inl what \<Rightarrow> failed what
           | Inr landing \<Rightarrow>
               (case runSimulation lib ball atmos of
                  Inl what \<Rightarrow> failed what
                | Inr trajectory \<Rightarrow>
                    trajectory_metrics lib landing trajectory
                      (result\<lparr>carry_distance_yards := v3_1 landing,
                              calculation_successful := True,
                              error_message :=
                                ''Calculated using libshotscope physics (Prof. Alan Nathan research)''\<rparr>)))"


subsection \<open>Example inputs\<close>

text \<open>
  A shot at 300 mph (out of range), a shot at 150 mph (in range), the same shot 45.5
  degrees to the side (out of range), a library whose landing run throws, a library whose
  ball lands 250 yards away, and the contents of the result before anything is assigned.
\<close>

definition shot_300mph :: TrajectoryInput where
  "shot_300mph =
     \<lparr>initial_velocity_mph = 300, vertical_launch_angle_deg = 12,
      horizontal_launch_angle_deg = 0, backspin_rpm = 2500, sidespin_rpm = 0,
      temperature_f = None, elevation_ft = None, wind_speed_mph = None,
      wind_direction_deg = None, humidity_percent = None, pressure_inhg = None\<rparr>"

definition shot_150mph :: TrajectoryInput where
  "shot_150mph = shot_300mph\<lparr>initial_velocity_mph := 150\<rparr>"

definition shot_45_5_deg :: TrajectoryInput where
  "shot_45_5_deg = shot_150mph\<lparr>horizontal_launch_angle_deg := 91 / 2\<rparr>"

definition lib_throwing :: libshotscope where
  "lib_throwing =
     \<lparr>runSimulationLanding = (\<lambda>ball atmos. Inl ''no convergence''),
      runSimulation = (\<lambda>ball atmos. Inr []),
      lib_atan2 = (\<lambda>y x. 0), lib_pi = 3\<rparr>"

definition lib_250_yards :: libshotscope where
  "lib_250_yards =
     \<lparr>runSimulationLanding = (\<lambda>ball atmos. Inr (0, 250, 0)),
      runSimulation = (\<lambda>ball atmos. Inr []),
      lib_atan2 = (\<lambda>y x. 0), lib_pi = 3\<rparr>"

definition result_garbage :: TrajectoryResult where
  "result_garbage =
     \<lparr>carry_distance_yards = 7, flight_time_seconds = 7, landing_angle_deg = 7,
      max_height_yards = 7, calculation_successful = True, error_message = []\<rparr>"

section \<open>Properties\<close>

subsection \<open>Machine integers\<close>

lemma int32_in_range: "INT_MIN \<le> x \<Longrightarrow> x \<le> INT_MAX \<Longrightarrow> int32 x = x"
  by (simp add: int32_def INT_MIN_def INT_MAX_def)

subsection \<open>Rounding to float\<close>

declare bit_length.simps [simp del]

lemma bit_length_bounds:
  "0 < n \<Longrightarrow> 1 \<le> bit_length n \<and> 2 ^ nat (bit_length n - 1) \<le> n \<and> n < 2 ^ nat (bit_length n)"
proof (induction n rule: bit_length.induct)
  case (1 n)
  show ?case
  proof (cases "n = 1")
    case True
    have "bit_length 1 = 1"
      by (simp add: bit_length.simps [of 1] bit_length.simps [of 0])
    with True show ?thesis by simp
  next
    case False
    with "1.prems" have pos: "0 < n div 2" by simp
    have n: "\<not> n \<le> 0" using "1.prems" by simp
    from "1.IH" [OF n pos] have ih1: "1 \<le> bit_length (n div 2)"
      and ih2: "2 ^ nat (bit_length (n div 2) - 1) \<le> n div 2"
      and ih3: "n div 2 < 2 ^ nat (bit_length (n div 2))"
      by simp_all
    define k where "k = nat (bit_length (n div 2) - 1)"
    have bl: "bit_length (n div 2) = int k + 1" using ih1 by (simp add: k_def)
    have b: "bit_length n = int k + 2"
      using n bl by (simp add: bit_length.simps [of n])
    have lo: "(2::int) ^ k \<le> n div 2" using ih2 by (simp add: k_def)
    have hi: "n div 2 < (2::int) ^ (k + 1)" using ih3 by (simp add: bl nat_add_distrib)
    have "2 * 2 ^ k \<le> n" using lo by linarith
    moreover have "n < 2 * 2 ^ (k + 1)" using hi by linarith
    ultimately show ?thesis
      by (simp add: b nat_add_distrib)
  qed
qed

lemma pow2_pos: "0 < pow2 e"
  by (simp add: pow2_def)


lemma float_exponent_le:
  assumes "0 < x"
  shows "pow2 (float_exponent x) \<le> x"
proof (cases "1 \<le> x")
  case True
  then have n: "0 < \<lfloor>x\<rfloor>" by simp
  from bit_length_bounds [OF n]
  have k: "1 \<le> bit_length \<lfloor>x\<rfloor>" and lo: "2 ^ nat (bit_length \<lfloor>x\<rfloor> - 1) \<le> \<lfloor>x\<rfloor>"
    by simp_all
  have "real_of_int (2 ^ nat (bit_length \<lfloor>x\<rfloor> - 1)) \<le> real_of_int \<lfloor>x\<rfloor>"
    using lo by (simp only: of_int_le_iff)
  also have "\<dots> \<le> x" by simp
  finally show ?thesis
    using True k by (simp add: float_exponent_def pow2_def)
next
  case False
  define m where "m = \<lceil>1 / x\<rceil>"
  have y: "1 < 1 / x" using False assms by simp
  then have m2: "2 \<le> m" unfolding m_def by linarith
  then have m1: "0 < m - 1" by simp
  from bit_length_bounds [OF m1]
  have k: "1 \<le> bit_length (m - 1)" and hi: "m - 1 < 2 ^ nat (bit_length (m - 1))"
    by simp_all
  define j where "j = nat (bit_length (m - 1))"
  have kj: "bit_length (m - 1) = int j" and j1: "1 \<le> j" using k by (simp_all add: j_def)
  have "m \<le> 2 ^ j" using hi by (simp add: j_def)
  then have mj: "real_of_int m \<le> 2 ^ j"
    by (metis of_int_le_iff of_int_numeral of_int_power)
  have "1 / x \<le> real_of_int m" unfolding m_def by simp
  then have "1 / x \<le> 2 ^ j" using mj by (rule order_trans)
  then have "1 \<le> 2 ^ j * x" using assms by (simp add: field_simps)
  then have "1 / 2 ^ j \<le> x" by (simp add: field_simps)
  then show ?thesis
    using False j1 by (simp add: float_exponent_def pow2_def m_def [symmetric] kj)
qed



lemma float_exponent_gt:
  assumes "0 < x"
  shows "x < pow2 (float_exponent x + 1)"
proof (cases "1 \<le> x")
  case True
  then have n: "0 < \<lfloor>x\<rfloor>" by simp
  from bit_length_bounds [OF n]
  have k: "1 \<le> bit_length \<lfloor>x\<rfloor>" and hi: "\<lfloor>x\<rfloor> < 2 ^ nat (bit_length \<lfloor>x\<rfloor>)"
    by simp_all
  from hi have "\<lfloor>x\<rfloor> + 1 \<le> 2 ^ nat (bit_length \<lfloor>x\<rfloor>)" by simp
  then have "real_of_int (\<lfloor>x\<rfloor> + 1) \<le> real_of_int (2 ^ nat (bit_length \<lfloor>x\<rfloor>))"
    by (simp only: of_int_le_iff)
  moreover have "x < real_of_int (\<lfloor>x\<rfloor> + 1)" by linarith
  ultimately have "x < real_of_int (2 ^ nat (bit_length \<lfloor>x\<rfloor>))" by (rule less_le_trans [rotated])
  then show ?thesis
    using True k by (simp add: float_exponent_def pow2_def)
next
  case False
  define m where "m = \<lceil>1 / x\<rceil>"
  have y: "1 < 1 / x" using False assms by simp
  then have m2: "2 \<le> m" unfolding m_def by linarith
  then have m1: "0 < m - 1" by simp
  from bit_length_bounds [OF m1]
  have k: "1 \<le> bit_length (m - 1)" and lo: "2 ^ nat (bit_length (m - 1) - 1) \<le> m - 1"
    by simp_all
  define j where "j = nat (bit_length (m - 1) - 1)"
  have kj: "bit_length (m - 1) = int j + 1" using k by (simp add: j_def)
  have "(2::int) ^ j \<le> m - 1" using lo by (simp add: j_def)
  then have "real_of_int (2 ^ j) \<le> real_of_int (m - 1)" by (simp only: of_int_le_iff)
  moreover have "real_of_int (m - 1) < 1 / x" unfolding m_def by linarith
  ultimately have "real_of_int (2 ^ j) < 1 / x" by (rule le_less_trans)
  then have "2 ^ j < 1 / x" by simp
  then have "2 ^ j * x < 1" using assms by (simp add: field_simps)
  then have x: "x < 1 / 2 ^ j" by (simp add: field_simps)
  have "pow2 (float_exponent x + 1) = pow2 (- int j)"
    using False by (simp add: float_exponent_def m_def [symmetric] kj)
  also have "\<dots> = 1 / 2 ^ j"
  proof (cases "j = 0")
    case True
    then show ?thesis by (simp add: pow2_def)
  next
    case False
    then have "\<not> 0 \<le> - int j" and "nat (- (- int j)) = j" by simp_all
    then show ?thesis by (simp only: pow2_def if_False)
  qed
  finally show ?thesis using x by simp
qed

lemma round_half_even_error: "\<bar>real_of_int (round_half_even m) - m\<bar> \<le> 1 / 2"
proof -
  have "real_of_int \<lfloor>m\<rfloor> \<le> m" and "m < real_of_int \<lfloor>m\<rfloor> + 1" by linarith+
  then show ?thesis
    by (auto simp: round_half_even_def Let_def)
qed

lemma pow2_half: "pow2 (e - 1) = pow2 e / 2"
proof -
  have p: "pow2 e = 2 powi e" for e
    by (simp add: pow2_def power_int_def field_simps)
  show ?thesis unfolding p by (simp add: power_int_diff)
qed

text \<open>
  \<open>to_float\<close> is a rounding to 24 significant bits: the exponent brackets the number, and
  the result is not farther from the number than half a unit in the last place.
\<close>

lemma to_float_nearest:
  assumes "x \<noteq> 0"
  shows "pow2 (float_exponent \<bar>x\<bar>) \<le> \<bar>x\<bar>" and "\<bar>x\<bar> < pow2 (float_exponent \<bar>x\<bar> + 1)"
    and "\<bar>to_float x - x\<bar> \<le> pow2 (float_exponent \<bar>x\<bar> - 24)"
proof -
  have a: "0 < \<bar>x\<bar>" using assms by simp
  show "pow2 (float_exponent \<bar>x\<bar>) \<le> \<bar>x\<bar>" by (rule float_exponent_le [OF a])
  show "\<bar>x\<bar> < pow2 (float_exponent \<bar>x\<bar> + 1)" by (rule float_exponent_gt [OF a])
  define ulp where "ulp = pow2 (float_exponent \<bar>x\<bar> - 23)"
  define q where "q = real_of_int (round_half_even (\<bar>x\<bar> / ulp))"
  have u: "0 < ulp" unfolding ulp_def by (rule pow2_pos)
  have "\<bar>q - \<bar>x\<bar> / ulp\<bar> \<le> 1 / 2" unfolding q_def by (rule round_half_even_error)
  then have "\<bar>q - \<bar>x\<bar> / ulp\<bar> * ulp \<le> 1 / 2 * ulp"
    using u by (simp only: mult_le_cancel_right_pos)
  moreover have "\<bar>q - \<bar>x\<bar> / ulp\<bar> * ulp = \<bar>q * ulp - \<bar>x\<bar>\<bar>"
  proof -
    have "\<bar>q - \<bar>x\<bar> / ulp\<bar> * ulp = \<bar>(q - \<bar>x\<bar> / ulp) * ulp\<bar>"
      using u by (simp add: abs_mult)
    also have "(q - \<bar>x\<bar> / ulp) * ulp = q * ulp - \<bar>x\<bar>"
      using u by (simp add: field_simps)
    finally show ?thesis .
  qed
  ultimately have e: "\<bar>q * ulp - \<bar>x\<bar>\<bar> \<le> ulp / 2" by simp
  have t: "to_float x = sgn x * (q * ulp)"
    using assms by (simp add: to_float_def Let_def ulp_def q_def)
  have "\<bar>to_float x - x\<bar> = \<bar>sgn x * (q * ulp - \<bar>x\<bar>)\<bar>"
    unfolding t by (simp add: right_diff_distrib sgn_if)
  also have "\<dots> = \<bar>q * ulp - \<bar>x\<bar>\<bar>"
    using assms by (simp add: abs_mult sgn_if)
  finally have "\<bar>to_float x - x\<bar> \<le> ulp / 2" using e by simp
  moreover have "pow2 (float_exponent \<bar>x\<bar> - 24) = ulp / 2"
    using pow2_half [of "float_exponent \<bar>x\<bar> - 23"] by (simp add: ulp_def)
  ultimately show "\<bar>to_float x - x\<bar> \<le> pow2 (float_exponent \<bar>x\<bar> - 24)" by simp
qed

subsection \<open>Configuration store\<close>

declare walk_path.simps [simp del] put_child.simps [simp del] put_value_at.simps [simp del]
  dec.simps [simp del]

lemma below_ten: "d < 10 \<Longrightarrow> d \<in> {0, 1, 2, 3, 4, 5, 6, 7, 8, 9 :: nat}"
proof -
  assume "d < 10"
  then have "d \<in> set [0..<10]" by simp
  moreover have "[0..<10] = [0, 1, 2, 3, 4, 5, 6, 7, 8, 9 :: nat]" by code_simp
  ultimately show ?thesis by simp
qed

lemma digit_char_is_digit: "d < 10 \<Longrightarrow> is_digit (digit_char d)"
  using below_ten [of d] by (auto simp: is_digit_def digit_char_def)

lemma digit_val_digit_char: "d < 10 \<Longrightarrow> digit_val (digit_char d) = int d"
  using below_ten [of d] by (auto simp: digit_val_def digit_char_def)

lemma is_digit_not_sign:
  "is_digit c \<Longrightarrow> \<not> is_space c \<and> c \<noteq> CHR ''-'' \<and> c \<noteq> CHR ''+''"
  by (auto simp: is_digit_def is_space_def)

lemma dec_all_digits: "\<forall>c \<in> set (dec n). is_digit c"
proof (induction n rule: dec.induct)
  case (1 n)
  show ?case
  proof (cases "n < 10")
    case True
    then show ?thesis by (simp add: dec.simps [of n] digit_char_is_digit)
  next
    case False
    with 1 show ?thesis by (simp add: dec.simps [of n] digit_char_is_digit)
  qed
qed

lemma dec_nonempty: "dec n \<noteq> []"
  by (simp add: dec.simps [of n])

lemma foldl_dec: "foldl (\<lambda>a c. 10 * a + digit_val c) 0 (dec n) = int n"
proof (induction n rule: dec.induct)
  case (1 n)
  show ?case
  proof (cases "n < 10")
    case True
    then show ?thesis by (simp add: dec.simps [of n] digit_val_digit_char)
  next
    case False
    with 1 have "foldl (\<lambda>a c. 10 * a + digit_val c) 0 (dec (n div 10)) = int (n div 10)"
      by simp
    with False show ?thesis
      by (simp add: dec.simps [of n] digit_val_digit_char) presburger
  qed
qed

lemma stoi_digits:
  assumes "ds \<noteq> []" and "\<forall>c \<in> set ds. is_digit c"
  shows "dropWhile is_space ds = ds" and "hd ds \<noteq> CHR ''-''" and "hd ds \<noteq> CHR ''+''"
    and "takeWhile is_digit ds = ds"
proof -
  from assms obtain c cs where ds: "ds = c # cs" by (cases ds) auto
  with assms have c: "is_digit c" by simp
  show "dropWhile is_space ds = ds" using c ds is_digit_not_sign by simp
  show "hd ds \<noteq> CHR ''-''" using c ds is_digit_not_sign by auto
  show "hd ds \<noteq> CHR ''+''" using c ds is_digit_not_sign by auto
  show "takeWhile is_digit ds = ds" using assms(2) by (simp add: takeWhile_eq_all_conv)
qed

lemma stoi_to_string:
  assumes "INT_MIN \<le> i" and "i \<le> INT_MAX"
  shows "stoi (to_string i) = Some i"
proof (cases "i < 0")
  case True
  let ?ds = "dec (nat (- i))"
  have ne: "?ds \<noteq> []" by (rule dec_nonempty)
  have tw: "takeWhile is_digit ?ds = ?ds"
    using stoi_digits(4) [OF ne dec_all_digits] .
  have "stoi (CHR ''-'' # ?ds) = Some i"
    using True assms ne
    by (simp add: stoi_def Let_def is_space_def tw foldl_dec)
  with True show ?thesis by (simp add: to_string_def)
next
  case False
  let ?ds = "dec (nat i)"
  have ne: "?ds \<noteq> []" by (rule dec_nonempty)
  note d = stoi_digits [OF ne dec_all_digits]
  have "stoi ?ds = Some i"
    using False assms ne
    by (simp add: stoi_def Let_def d foldl_dec)
  with False show ?thesis by (simp add: to_string_def)
qed

text \<open>
  The order of the tiers. Every getter reads the runtime tier first, then the user tier,
  then the system tier at the path the mapping table gives, then the default:
  \<open>GetValue\<close> and \<open>GetString\<close> return the string of the first tier that has the key;
  \<open>GetInt\<close>, \<open>GetFloat\<close> and \<open>GetBool\<close> convert that same string, and a failed
  conversion gives the default, never the value of a lower tier. With no tier holding the
  key \<open>GetString\<close>, \<open>GetInt\<close> and \<open>GetBool\<close> return the default; \<open>GetFloat\<close> returns what
  \<open>std::stof\<close> reads from the text \<open>std::to_string\<close> printed for the default.
\<close>

lemma getters_follow_precedence:
  assumes "INT_MIN \<le> di" and "di \<le> INT_MAX"
  shows "GetValue cm key d = value_or (spec_effective_value cm key) d
       \<and> GetString cm key d = value_or (spec_effective_value cm key) d
       \<and> GetInt cm key di =
           (case spec_effective_value cm key of
              Some v \<Rightarrow> (case stoi v of Some n \<Rightarrow> n | None \<Rightarrow> di)
            | None \<Rightarrow> di)
       \<and> GetFloat lib cm key df =
           (case stof lib (value_or (spec_effective_value cm key) (to_string_float lib df)) of
              Some x \<Rightarrow> x
            | None \<Rightarrow> df)
       \<and> GetBool cm key db =
           (case spec_effective_value cm key of
              Some v \<Rightarrow>
                if v \<in> {''true'', ''1'', ''yes'', ''on''} then True
                else if v \<in> {''false'', ''0'', ''no'', ''off''} then False
                else db
            | None \<Rightarrow> db)"
proof -
  have v: "GetValue cm key x = value_or (spec_effective_value cm key) x" for x
    by (auto simp: GetValue_def spec_effective_value_def value_or_def split: option.splits)
  have s: "GetString cm key x = value_or (spec_effective_value cm key) x" for x
    by (simp add: GetString_def v)
  have i: "GetInt cm key di =
           (case spec_effective_value cm key of
              Some v \<Rightarrow> (case stoi v of Some n \<Rightarrow> n | None \<Rightarrow> di)
            | None \<Rightarrow> di)"
    using stoi_to_string [OF assms]
    by (simp add: GetInt_def s value_or_def split: option.splits)
  have f: "GetFloat lib cm key df =
           (case stof lib (value_or (spec_effective_value cm key) (to_string_float lib df)) of
              Some x \<Rightarrow> x
            | None \<Rightarrow> df)"
    by (simp add: GetFloat_def s)
  have b: "GetBool cm key db =
           (case spec_effective_value cm key of
              Some v \<Rightarrow>
                if v \<in> {''true'', ''1'', ''yes'', ''on''} then True
                else if v \<in> {''false'', ''0'', ''no'', ''off''} then False
                else db
            | None \<Rightarrow> db)"
    by (cases db) (auto simp: GetBool_def s value_or_def Let_def split: option.splits)
  from v s i f b show ?thesis by blast
qed

text \<open>
  C1 at an input where the code departs from it. No tier holds the key \<open>a.b\<close>, and
  \<open>GetFloat\<close> is called with the default \<open>1e-7f\<close>. The default is printed by
  \<open>std::to_string\<close>, which keeps six digits after the point and gives \<open>0.000000\<close>; that
  text is what \<open>GetString\<close> returns, \<open>std::stof\<close> reads 0 from it, and \<open>GetFloat\<close> returns
  0 where the supplied default was due.

  The rest of the scenario is as the claim has it. With \<open>a.b = 1, 2, 3\<close> in the system,
  user and runtime tier the answers of \<open>GetInt\<close> are 3, 2, 1 and 0 as the tiers are taken
  away, and \<open>GetFloat\<close> reads the same values. With a mapping table the system tier is read
  at the mapped path: the flat key \<open>gain\<close> gives the 6 stored at
  \<open>gs_config.cameras.kCamera1Gain\<close>, not the 9 stored under \<open>gain\<close>, and an override of
  \<open>gain\<close> in the runtime tier comes first.
\<close>

theorem GetFloat_default_through_text:
  "GetFromTree (cli_overrides cm_empty) ''a.b'' = None
   \<and> GetFromTree (yaml_config cm_empty) ''a.b'' = None
   \<and> GetFromTree (json_config cm_empty) (MapToJsonPath cm_empty ''a.b'') = None
   \<and> 0 < float_1e_7
   \<and> std_to_string_float float_1e_7 = ''0.000000''
   \<and> GetFloat lib_text cm_empty ''a.b'' float_1e_7 = 0
   \<and> GetInt cm_all_tiers ''a.b'' 0 = 3
   \<and> GetInt cm_system_user ''a.b'' 0 = 2
   \<and> GetInt cm_system_only ''a.b'' 0 = 1
   \<and> GetInt cm_empty ''a.b'' 0 = 0
   \<and> GetFloat lib_text cm_all_tiers ''a.b'' 0 = 3
   \<and> GetFloat lib_text cm_system_user ''a.b'' 0 = 2
   \<and> GetFloat lib_text cm_system_only ''a.b'' 0 = 1
   \<and> MapToJsonPath cm_mapped ''gain'' = ''gs_config.cameras.kCamera1Gain''
   \<and> GetString cm_mapped ''gain'' ''0'' = ''6''
   \<and> GetInt cm_mapped ''gain'' 0 = 6
   \<and> GetInt (SetOverride cm_mapped ''gain'' ''4'') ''gain'' 0 = 4"
proof -
  have t1: "GetFromTree (cli_overrides cm_empty) ''a.b'' = None"
    and t2: "GetFromTree (yaml_config cm_empty) ''a.b'' = None"
    and t3: "GetFromTree (json_config cm_empty) (MapToJsonPath cm_empty ''a.b'') = None"
    by code_simp+
  have d1: "0 < float_1e_7" by code_simp
  have d2: "std_to_string_float float_1e_7 = ''0.000000''" by code_simp
  have d3: "GetFloat lib_text cm_empty ''a.b'' float_1e_7 = 0" by code_simp
  have i3: "GetInt cm_all_tiers ''a.b'' 0 = 3"
    and i2: "GetInt cm_system_user ''a.b'' 0 = 2"
    and i1: "GetInt cm_system_only ''a.b'' 0 = 1"
    and i0: "GetInt cm_empty ''a.b'' 0 = 0"
    by code_simp+
  have f3: "GetFloat lib_text cm_all_tiers ''a.b'' 0 = 3"
    and f2: "GetFloat lib_text cm_system_user ''a.b'' 0 = 2"
    and f1: "GetFloat lib_text cm_system_only ''a.b'' 0 = 1"
    by code_simp+
  have m1: "MapToJsonPath cm_mapped ''gain'' = ''gs_config.cameras.kCamera1Gain''"
    and m2: "GetString cm_mapped ''gain'' ''0'' = ''6''"
    and m3: "GetInt cm_mapped ''gain'' 0 = 6"
    and m4: "GetInt (SetOverride cm_mapped ''gain'' ''4'') ''gain'' 0 = 4"
    by code_simp+
  from t1 t2 t3 d1 d2 d3 i3 i2 i1 i0 f3 f2 f1 m1 m2 m3 m4 show ?thesis
    by (intro conjI)
qed

theorem GetFloat_default_through_text_witness:
  "GetFloat lib_text cm_empty ''a.b'' float_1e_7 \<noteq> float_1e_7"
  using GetFloat_default_through_text by simp

lemma ValidateValue_appends:
  "ValidateValue lib m k v errs
     = (fst (ValidateValue lib m k v []), errs @ snd (ValidateValue lib m k v []))"
  by (simp add: ValidateValue_def validate_pattern_def Let_def split: option.splits)

lemma ValidateValue_one_message:
  "length (snd (ValidateValue lib m k v [])) = (if fst (ValidateValue lib m k v []) then 0 else 1)"
  by (simp add: ValidateValue_def validate_pattern_def Let_def split: option.splits)

lemma fold_validate_entry:
  "fold (validate_entry lib m) es (b, errs)
     = (b \<and> list_all (\<lambda>e. fst (ValidateValue lib m (fst e) (data (snd e)) [])) es,
        errs @ concat (map (\<lambda>e. snd (ValidateValue lib m (fst e) (data (snd e)) [])) es))"
proof (induction es arbitrary: b errs)
  case Nil
  show ?case by simp
next
  case (Cons e es)
  have step: "validate_entry lib m e (b, errs)
      = (b \<and> fst (ValidateValue lib m (fst e) (data (snd e)) []),
         errs @ snd (ValidateValue lib m (fst e) (data (snd e)) []))"
    using ValidateValue_appends [of lib m "fst e" "data (snd e)" errs]
    by (simp add: validate_entry_def Let_def)
  show ?case
    by (simp add: step Cons.IH)
qed

lemma length_concat_messages:
  "length (concat (map (\<lambda>e. snd (ValidateValue lib m (fst e) (data (snd e)) [])) es))
     = length (filter (\<lambda>e. \<not> fst (ValidateValue lib m (fst e) (data (snd e)) [])) es)"
  by (induction es) (simp_all add: ValidateValue_one_message)

text \<open>
  C3, as the code has it. \<open>ValidateConfiguration\<close> visits the entries at the root of the
  user tier and then those at the root of the runtime tier, each with its own string, and
  checks that string against the validation metadata the mapping table declares for the
  entry's key. Every offending entry adds exactly one message, in the order of the visit,
  and the answer is true exactly when no entry offends. Values of the system tier and
  merged values are not looked at.
\<close>

theorem ValidateConfiguration_checks_override_entries:
  "fst (ValidateConfiguration lib cm)
     = list_all (\<lambda>e. fst (ValidateValue lib (mappings cm) (fst e) (data (snd e)) []))
         (children (yaml_config cm) @ children (cli_overrides cm))
   \<and> GetValidationErrors (snd (ValidateConfiguration lib cm))
     = concat (map (\<lambda>e. snd (ValidateValue lib (mappings cm) (fst e) (data (snd e)) []))
         (children (yaml_config cm) @ children (cli_overrides cm)))
   \<and> length (GetValidationErrors (snd (ValidateConfiguration lib cm)))
     = length (filter (\<lambda>e. \<not> fst (ValidateValue lib (mappings cm) (fst e) (data (snd e)) []))
         (children (yaml_config cm) @ children (cli_overrides cm)))
   \<and> length (snd (ValidateValue lib (mappings cm) k v []))
     = (if fst (ValidateValue lib (mappings cm) k v []) then 0 else 1)"
proof -
  let ?ok = "\<lambda>e. fst (ValidateValue lib (mappings cm) (fst e) (data (snd e)) [])"
  let ?msgs = "\<lambda>e. snd (ValidateValue lib (mappings cm) (fst e) (data (snd e)) [])"
  let ?es = "children (yaml_config cm) @ children (cli_overrides cm)"
  have run: "fold (validate_entry lib (mappings cm)) (children (cli_overrides cm))
               (fold (validate_entry lib (mappings cm)) (children (yaml_config cm)) (True, []))
             = (list_all ?ok ?es, concat (map ?msgs ?es))"
    by (simp add: fold_validate_entry)
  have a: "fst (ValidateConfiguration lib cm) = list_all ?ok ?es"
    by (simp add: ValidateConfiguration_def Let_def run del: list_all_append)
  have b: "GetValidationErrors (snd (ValidateConfiguration lib cm)) = concat (map ?msgs ?es)"
    by (simp add: ValidateConfiguration_def GetValidationErrors_def Let_def run
        del: map_append concat_append)
  have c: "length (concat (map ?msgs ?es)) = length (filter (\<lambda>e. \<not> ?ok e) ?es)"
    by (rule length_concat_messages)
  show ?thesis
    using a b c ValidateValue_one_message [of lib "mappings cm" k v] by simp
qed

theorem ValidateConfiguration_checks_override_entries_witness:
  "fst (ValidateConfiguration lib_none cm_bad_user_good_cli) = False
   \<and> GetValidationErrors (snd (ValidateConfiguration lib_none cm_bad_user_good_cli))
       = [''mode: value '' @ quote @ ''video'' @ quote @ '' not in allowed values'']
   \<and> length (GetValidationErrors (snd (ValidateConfiguration lib_none cm_bad_user_good_cli))) = 1"
proof -
  have es: "children (yaml_config cm_bad_user_good_cli) @ children (cli_overrides cm_bad_user_good_cli)
      = [(''mode'', PTree ''video'' []), (''mode'', PTree ''placed'' [])]"
    by code_simp
  have m: "mappings cm_bad_user_good_cli = mappings_mode"
    by (simp add: cm_bad_user_good_cli_def SetOverride_def cm_empty_def)
  have v1: "ValidateValue lib_none mappings_mode ''mode'' ''video'' []
      = (False, [''mode: value '' @ quote @ ''video'' @ quote @ '' not in allowed values''])"
    by code_simp
  have v2: "ValidateValue lib_none mappings_mode ''mode'' ''placed'' [] = (True, [])"
    by code_simp
  show ?thesis
    using ValidateConfiguration_checks_override_entries
      [of lib_none cm_bad_user_good_cli "''mode''" "''video''"]
    by (simp add: es m v1 v2)
qed

text \<open>
  The claim as written fails in both directions. A store whose system tier holds
  \<open>mode = video\<close>, a value the schema of \<open>mode\<close> does not allow and the value a get returns,
  validates without any error. A store whose user tier holds the bad value and whose
  runtime tier overrides it with an allowed one has a valid merged value and is reported
  as invalid.
\<close>

theorem ValidateConfiguration_effective_value_counterexample:
  "spec_effective_value cm_bad_system_value ''mode'' = Some ''video''
   \<and> \<not> fst (ValidateValue lib_none (mappings cm_bad_system_value) ''mode'' ''video'' [])
   \<and> fst (ValidateConfiguration lib_none cm_bad_system_value)
   \<and> GetValidationErrors (snd (ValidateConfiguration lib_none cm_bad_system_value)) = []
   \<and> spec_effective_value cm_bad_user_good_cli ''mode'' = Some ''placed''
   \<and> fst (ValidateValue lib_none (mappings cm_bad_user_good_cli) ''mode'' ''placed'' [])
   \<and> \<not> fst (ValidateConfiguration lib_none cm_bad_user_good_cli)
   \<and> length (GetValidationErrors (snd (ValidateConfiguration lib_none cm_bad_user_good_cli))) = 1"
  by code_simp

subsection \<open>Flight-capture event loop\<close>

lemma int_div_less_iff:
  fixes a c q :: int
  assumes "0 < c"
  shows "a div c < q \<longleftrightarrow> a < q * c"
proof -
  obtain d m where dm: "a = d * c + m" "0 \<le> m" "m < c" "a div c = d"
    using assms div_mult_mod_eq [of a c] pos_mod_sign [of c a] pos_mod_bound [of c a]
    by metis
  have "d < q \<longleftrightarrow> d * c + m < q * c"
  proof
    assume "d < q"
    then have "d + 1 \<le> q" by simp
    then have "(d + 1) * c \<le> q * c" using assms by (simp add: mult_right_mono)
    then have "d * c + c \<le> q * c" by (simp add: algebra_simps)
    with dm(3) show "d * c + m < q * c" by simp
  next
    assume "d * c + m < q * c"
    with dm(2) have "d * c < q * c" by simp
    then show "d < q" using assms by (simp add: mult_less_cancel_right)
  qed
  with dm(1,4) show ?thesis by simp
qed

lemma timeLapsed_less_iff:
  assumes "first \<le> t"
  shows "timeLapsed_ms t first < q \<longleftrightarrow> t - first < q * ns_per_ms"
proof -
  have pos: "0 < ns_per_ms" by (simp add: ns_per_ms_def)
  have "0 \<le> t - first" using assms by simp
  then have "(t - first) sdiv ns_per_ms = (t - first) div ns_per_ms"
    using pos by (simp add: signed_divide_int_def sgn_if)
  then show ?thesis
    using int_div_less_iff [OF pos] by (simp add: timeLapsed_ms_def)
qed

lemma quiet_triggers_wait:
  assumes "state v = kWaitingForFirstPrimingTimeEnd" and "return_status v"
    and "list_all (trigger_while_quiescing (timeOfFirstTrigger v) quiesce) ts"
  shows "flight_loop k quiesce v ts = Waits v"
  using assms(3)
proof (induction ts)
  case Nil
  show ?case using assms(1,2) by simp
next
  case (Cons t ts)
  from Cons.prems have t: "trigger_while_quiescing (timeOfFirstTrigger v) quiesce t"
    and rest: "list_all (trigger_while_quiescing (timeOfFirstTrigger v) quiesce) ts"
    by simp_all
  from t have t1: "golf_sim_running t" and t2: "msg_type t = RequestComplete"
    and t3: "timeOfFirstTrigger v \<le> now t"
    and t4: "now t - timeOfFirstTrigger v < quiesce * ns_per_ms"
    by (simp_all add: trigger_while_quiescing_def)
  have "timeLapsed_ms (now t) (timeOfFirstTrigger v) < quiesce"
    using t4 by (simp only: timeLapsed_less_iff [OF t3])
  then have "on_request_complete k quiesce t v = Inr v"
    using assms(1) by (simp add: on_request_complete_def)
  moreover have "flight_loop k quiesce v ts = Waits v"
    by (rule Cons.IH [OF rest])
  ultimately show ?case
    using assms(1,2) t1 t2 by simp
qed

lemma quiet_triggers_skipped:
  assumes "state v = kWaitingForFirstPrimingTimeEnd" and "return_status v"
    and "list_all (trigger_while_quiescing (timeOfFirstTrigger v) quiesce) ts"
  shows "flight_loop k quiesce v (ts @ us) = flight_loop k quiesce v us"
  using assms(3)
proof (induction ts)
  case Nil
  show ?case by simp
next
  case (Cons t ts)
  from Cons.prems have t: "trigger_while_quiescing (timeOfFirstTrigger v) quiesce t"
    and rest: "list_all (trigger_while_quiescing (timeOfFirstTrigger v) quiesce) ts"
    by simp_all
  from t have t1: "golf_sim_running t" and t2: "msg_type t = RequestComplete"
    and t3: "timeOfFirstTrigger v \<le> now t"
    and t4: "now t - timeOfFirstTrigger v < quiesce * ns_per_ms"
    by (simp_all add: trigger_while_quiescing_def)
  have "timeLapsed_ms (now t) (timeOfFirstTrigger v) < quiesce"
    using t4 by (simp only: timeLapsed_less_iff [OF t3])
  then have "on_request_complete k quiesce t v = Inr v"
    using assms(1) by (simp add: on_request_complete_def)
  moreover have "flight_loop k quiesce v (ts @ us) = flight_loop k quiesce v us"
    by (rule Cons.IH [OF rest])
  ultimately show ?case
    using assms(1,2) t1 t2 by simp
qed

text \<open>
  C4, as the code has it. The quiesce time is the one the loop computes: the integer
  quotient \<open>1000 / kPrimingPulseFPS\<close> (C division, which truncates) times
  \<open>kNumberPrimingPulses + 1\<close>, as long as that sum and product fit into an \<open>int\<close>, plus
  the set-up allowance when the camera is the InnoMaker; a product that does not fit
  wraps around, as with 3000000 priming pulses at one per second. In state
  \<open>kWaitingForFirstPrimingTimeEnd\<close> a trigger that arrives less than the quiesce time after
  the first trigger changes nothing; a run of such triggers leaves the loop waiting in the
  same state, so no final state is reached; and the first trigger that arrives at or after
  the quiesce time moves the state one step, to \<open>kWaitingForPreImageTrigger\<close> with
  pre-image subtraction, otherwise to \<open>kWaitingForFinalImageTrigger\<close> when the camera
  needs a flush pulse and to \<open>kWaitingForFinalImageFlush\<close> when it does not.
\<close>

theorem priming_quiesce_transition:
  assumes "kQuiesceTimeMs k = Some quiesce"
    and "state v = kWaitingForFirstPrimingTimeEnd" and "return_status v"
    and "golf_sim_running t" and "msg_type t = RequestComplete"
    and "timeOfFirstTrigger v \<le> now t"
  shows "(INT_MIN \<le> kNumberPrimingPulses k + 1 \<and> kNumberPrimingPulses k + 1 \<le> INT_MAX
          \<and> INT_MIN \<le> (kNumberPrimingPulses k + 1) * (1000 sdiv kPrimingPulseFPS k)
          \<and> (kNumberPrimingPulses k + 1) * (1000 sdiv kPrimingPulseFPS k) \<le> INT_MAX
          \<longrightarrow> quiesce = (kNumberPrimingPulses k + 1) * (1000 sdiv kPrimingPulseFPS k)
                   + (if camera_is_InnoMaker k
                      then kPauseToSetUpInnoMakerExternalTriggerMilliseconds k else 0))
       \<and> kQuiesceTimeMs (consts_3_at_1000\<lparr>kNumberPrimingPulses := 3000000,
                                            kPrimingPulseFPS := 1\<rparr>)
            = Some (- 1294966296)
       \<and> (now t - timeOfFirstTrigger v < quiesce * ns_per_ms
            \<longrightarrow> on_request_complete k quiesce t v = Inr v)
       \<and> (list_all (trigger_while_quiescing (timeOfFirstTrigger v) quiesce) ts
            \<longrightarrow> flight_loop k quiesce v ts = Waits v)
       \<and> (\<not> now t - timeOfFirstTrigger v < quiesce * ns_per_ms
            \<longrightarrow> on_request_complete k quiesce t v
                = Inr (v\<lparr>state :=
                         if kUsePreImageSubtraction k then kWaitingForPreImageTrigger
                         else if kCameraRequiresFlushPulse k then kWaitingForFinalImageTrigger
                         else kWaitingForFinalImageFlush\<rparr>))
       \<and> (list_all (trigger_while_quiescing (timeOfFirstTrigger v) quiesce) ts
            \<and> \<not> now t - timeOfFirstTrigger v < quiesce * ns_per_ms
            \<longrightarrow> flight_loop k quiesce v (ts @ [t])
                = Waits (v\<lparr>state :=
                           if kUsePreImageSubtraction k then kWaitingForPreImageTrigger
                           else if kCameraRequiresFlushPulse k then kWaitingForFinalImageTrigger
                           else kWaitingForFinalImageFlush\<rparr>))"
proof -
  let ?next = "if kUsePreImageSubtraction k then kWaitingForPreImageTrigger
               else if kCameraRequiresFlushPulse k then kWaitingForFinalImageTrigger
               else kWaitingForFinalImageFlush"
  let ?n = "kNumberPrimingPulses k + 1"
  let ?p = "?n * (1000 sdiv kPrimingPulseFPS k)"
  have q: "quiesce = ?p + (if camera_is_InnoMaker k
                      then kPauseToSetUpInnoMakerExternalTriggerMilliseconds k else 0)"
    if "INT_MIN \<le> ?n \<and> ?n \<le> INT_MAX \<and> INT_MIN \<le> ?p \<and> ?p \<le> INT_MAX"
  proof -
    from that have n: "int32 ?n = ?n" by (simp add: int32_in_range)
    from that have p: "int32 ?p = ?p" by (simp add: int32_in_range)
    from assms(1) show ?thesis
      by (auto simp: kQuiesceTimeMs_def Let_def n p split: if_splits)
  qed
  have lapse: "timeLapsed_ms (now t) (timeOfFirstTrigger v) < quiesce
                 \<longleftrightarrow> now t - timeOfFirstTrigger v < quiesce * ns_per_ms"
    by (rule timeLapsed_less_iff [OF assms(6)])
  have early: "on_request_complete k quiesce t v = Inr v"
    if "now t - timeOfFirstTrigger v < quiesce * ns_per_ms"
    using that lapse assms(2) by (simp add: on_request_complete_def)
  have late: "on_request_complete k quiesce t v = Inr (v\<lparr>state := ?next\<rparr>)"
    if "\<not> now t - timeOfFirstTrigger v < quiesce * ns_per_ms"
    using that lapse assms(2) by (simp add: on_request_complete_def)
  have quiet: "flight_loop k quiesce v ts = Waits v"
    if "list_all (trigger_while_quiescing (timeOfFirstTrigger v) quiesce) ts"
    by (rule quiet_triggers_wait [OF assms(2,3) that])
  have nonfinal: "?next \<noteq> kFinalImageReceived" by simp
  have first_late: "flight_loop k quiesce v (ts @ [t]) = Waits (v\<lparr>state := ?next\<rparr>)"
    if a: "list_all (trigger_while_quiescing (timeOfFirstTrigger v) quiesce) ts"
      and b: "\<not> now t - timeOfFirstTrigger v < quiesce * ns_per_ms"
  proof -
    have "flight_loop k quiesce v (ts @ [t]) = flight_loop k quiesce v [t]"
      by (rule quiet_triggers_skipped [OF assms(2,3) a])
    also have "\<dots> = flight_loop k quiesce (v\<lparr>state := ?next\<rparr>) []"
      using late [OF b] assms(2,3,4,5) by simp
    also have "\<dots> = Waits (v\<lparr>state := ?next\<rparr>)"
      using nonfinal assms(3) by simp
    finally show ?thesis .
  qed
  have wraps: "kQuiesceTimeMs (consts_3_at_1000\<lparr>kNumberPrimingPulses := 3000000,
                                            kPrimingPulseFPS := 1\<rparr>)
            = Some (- 1294966296)"
    by code_simp
  from q wraps early late quiet first_late show ?thesis by blast
qed

theorem priming_quiesce_transition_witness:
  "kQuiesceTimeMs consts_3_at_300 = Some 12
   \<and> 12 = (kNumberPrimingPulses consts_3_at_300 + 1)
            * (1000 sdiv kPrimingPulseFPS consts_3_at_300)
   \<and> on_request_complete consts_3_at_300 12 (trigger_at 11900000) vars_priming
       = Inr vars_priming
   \<and> flight_loop consts_3_at_300 12 vars_priming
         [trigger_at 4000000, trigger_at 8000000, trigger_at 11900000]
       = Waits vars_priming
   \<and> on_request_complete consts_3_at_300 12 (trigger_at 12500000) vars_priming
       = Inr (vars_priming\<lparr>state := kWaitingForPreImageTrigger\<rparr>)
   \<and> flight_loop consts_3_at_300 12 vars_priming
         ([trigger_at 4000000, trigger_at 8000000, trigger_at 11900000] @ [trigger_at 12500000])
       = Waits (vars_priming\<lparr>state := kWaitingForPreImageTrigger\<rparr>)"
proof -
  have q: "kQuiesceTimeMs consts_3_at_300 = Some 12"
    by (simp add: kQuiesceTimeMs_def consts_3_at_300_def consts_3_at_1000_def
        signed_divide_int_def int32_def)
  have fits: "INT_MIN \<le> kNumberPrimingPulses consts_3_at_300 + 1
      \<and> kNumberPrimingPulses consts_3_at_300 + 1 \<le> INT_MAX
      \<and> INT_MIN \<le> (kNumberPrimingPulses consts_3_at_300 + 1)
                     * (1000 sdiv kPrimingPulseFPS consts_3_at_300)
      \<and> (kNumberPrimingPulses consts_3_at_300 + 1)
           * (1000 sdiv kPrimingPulseFPS consts_3_at_300) \<le> INT_MAX"
    by (simp add: consts_3_at_300_def consts_3_at_1000_def signed_divide_int_def
        INT_MIN_def INT_MAX_def)
  have plain: "\<not> camera_is_InnoMaker consts_3_at_300"
    by (simp add: consts_3_at_300_def consts_3_at_1000_def)
  have s: "state vars_priming = kWaitingForFirstPrimingTimeEnd"
    and r: "return_status vars_priming"
    and f: "timeOfFirstTrigger vars_priming = 0"
    by (simp_all add: vars_priming_def)
  have g: "golf_sim_running (trigger_at n)" and m: "msg_type (trigger_at n) = RequestComplete"
    and n: "now (trigger_at n) = n" for n
    by (simp_all add: trigger_at_def)
  have quiet: "list_all (trigger_while_quiescing (timeOfFirstTrigger vars_priming) 12)
                 [trigger_at 4000000, trigger_at 8000000, trigger_at 11900000]"
    by (simp add: trigger_while_quiescing_def f g m n ns_per_ms_def)
  have early: "now (trigger_at 11900000) - timeOfFirstTrigger vars_priming < 12 * ns_per_ms"
    by (simp add: f n ns_per_ms_def)
  have late: "\<not> now (trigger_at 12500000) - timeOfFirstTrigger vars_priming < 12 * ns_per_ms"
    by (simp add: f n ns_per_ms_def)
  have le3: "timeOfFirstTrigger vars_priming \<le> now (trigger_at 11900000)"
    and le5: "timeOfFirstTrigger vars_priming \<le> now (trigger_at 12500000)"
    by (simp_all add: f n)
  note at3 = priming_quiesce_transition [OF q s r g m le3,
      of "[trigger_at 4000000, trigger_at 8000000, trigger_at 11900000]"]
  note at5 = priming_quiesce_transition [OF q s r g m le5,
      of "[trigger_at 4000000, trigger_at 8000000, trigger_at 11900000]"]
  have k: "kUsePreImageSubtraction consts_3_at_300"
    by (simp add: consts_3_at_300_def consts_3_at_1000_def)
  from at3 fits plain have e: "12 = (kNumberPrimingPulses consts_3_at_300 + 1)
            * (1000 sdiv kPrimingPulseFPS consts_3_at_300)"
    by simp
  from at3 early quiet have a: "on_request_complete consts_3_at_300 12 (trigger_at 11900000) vars_priming
       = Inr vars_priming"
    and b: "flight_loop consts_3_at_300 12 vars_priming
         [trigger_at 4000000, trigger_at 8000000, trigger_at 11900000] = Waits vars_priming"
    by blast+
  from at5 late quiet k have c: "on_request_complete consts_3_at_300 12 (trigger_at 12500000) vars_priming
       = Inr (vars_priming\<lparr>state := kWaitingForPreImageTrigger\<rparr>)"
    and d: "flight_loop consts_3_at_300 12 vars_priming
         ([trigger_at 4000000, trigger_at 8000000, trigger_at 11900000] @ [trigger_at 12500000])
       = Waits (vars_priming\<lparr>state := kWaitingForPreImageTrigger\<rparr>)"
    by simp_all
  from q e a b c d show ?thesis by blast
qed

text \<open>
  With the quotient of the specification the quiesce time of three priming pulses at 300
  per second is 13.33 ms; the loop computes 12 ms. A trigger that arrives 12.5 ms after
  the first one is inside the quiesce period of the specification, and the loop leaves
  \<open>kWaitingForFirstPrimingTimeEnd\<close> on it.
\<close>

theorem priming_quiesce_counterexample:
  "real_of_int (now (trigger_at 12500000) - timeOfFirstTrigger vars_priming) / 1000000
     < spec_quiesce_ms consts_3_at_300
   \<and> kQuiesceTimeMs consts_3_at_300 = Some 12
   \<and> on_request_complete consts_3_at_300 12 (trigger_at 12500000) vars_priming
       = Inr (vars_priming\<lparr>state := kWaitingForPreImageTrigger\<rparr>)
   \<and> ball_flight_camera_event_loop consts_3_at_300 0 [] [trigger_at 0, trigger_at 12500000]
       = Some (Waits (vars_priming\<lparr>state := kWaitingForPreImageTrigger\<rparr>))"
  by code_simp

text \<open>
  The scenario run from the start: the loop returns true and the returned image is the
  frame that was in the buffer at the final flush.
\<close>

lemma scenario_returns_final_frame:
  "ball_flight_camera_event_loop consts_3_at_1000 0 [] (scenario_ticks [7, 8, 9])
     = Some (Returned True
         \<lparr>state = kFinalImageReceived, timeOfFirstTrigger = 0, return_status = True,
          innomaker_first_external_trigger_is_set = False, returnImg = [7, 8, 9]\<rparr>)"
  by code_simp

subsection \<open>Neural detector\<close>

lemma suppress_step_length [simp]:
  "length (suppress_step thr ds i j flags) = length flags"
  by (simp add: suppress_step_def)

lemma suppress_step_nth:
  assumes "j < length flags" and "k < length flags"
  shows "suppress_step thr ds i j flags ! k \<longleftrightarrow> flags ! k \<or> (k = j \<and> suppresses thr ds i j)"
  using assms by (auto simp: suppress_step_def suppresses_def nth_list_update)

lemma fold_suppress_step:
  assumes "\<forall>j \<in> set js. j < length flags"
  shows "length (fold (suppress_step thr ds i) js flags) = length flags
       \<and> (\<forall>k < length flags. fold (suppress_step thr ds i) js flags ! k
             \<longleftrightarrow> flags ! k \<or> (k \<in> set js \<and> suppresses thr ds i k))"
  using assms
proof (induction js arbitrary: flags)
  case Nil
  show ?case by simp
next
  case (Cons j js)
  let ?flags' = "suppress_step thr ds i j flags"
  have j: "j < length flags" using Cons.prems by simp
  have "\<forall>j \<in> set js. j < length ?flags'" using Cons.prems by simp
  from Cons.IH [OF this]
  have len: "length (fold (suppress_step thr ds i) js ?flags') = length flags"
    and nth: "\<And>k. k < length flags \<Longrightarrow> fold (suppress_step thr ds i) js ?flags' ! k
             \<longleftrightarrow> ?flags' ! k \<or> (k \<in> set js \<and> suppresses thr ds i k)"
    by simp_all
  show ?case
    using len nth suppress_step_nth [OF j, of _ thr ds i] by auto
qed

lemma suppress_later_props:
  assumes "length flags = length ds"
  shows "length (suppress_later thr ds i flags) = length ds"
    and "k < length ds \<Longrightarrow> suppress_later thr ds i flags ! k
           \<longleftrightarrow> flags ! k \<or> (i < k \<and> suppresses thr ds i k)"
proof -
  have "\<forall>j \<in> set [Suc i..<length ds]. j < length flags" using assms by simp
  from fold_suppress_step [OF this, of thr ds i]
  show "length (suppress_later thr ds i flags) = length ds"
    and "k < length ds \<Longrightarrow> suppress_later thr ds i flags ! k
           \<longleftrightarrow> flags ! k \<or> (i < k \<and> suppresses thr ds i k)"
    using assms by (auto simp: suppress_later_def)
qed

lemma nms_state_Suc: "nms_state thr ds (Suc m) = nms_step thr ds m (nms_state thr ds m)"
  by (simp add: nms_state_def)

lemma nms_invariant:
  assumes "m \<le> length ds"
  shows "length (fst (nms_state thr ds m)) = length ds
       \<and> snd (nms_state thr ds m)
           = map ((!) ds) (filter (\<lambda>k. \<not> fst (nms_state thr ds m) ! k) [0..<m])
       \<and> (\<forall>j < length ds. fst (nms_state thr ds m) ! j
             \<longleftrightarrow> (\<exists>k < m. k < j \<and> \<not> fst (nms_state thr ds m) ! k \<and> suppresses thr ds k j))"
  using assms
proof (induction m)
  case 0
  show ?case by (simp add: nms_state_def)
next
  case (Suc m)
  let ?flags = "fst (nms_state thr ds m)"
  let ?res = "snd (nms_state thr ds m)"
  from Suc have len: "length ?flags = length ds"
    and res: "?res = map ((!) ds) (filter (\<lambda>k. \<not> ?flags ! k) [0..<m])"
    and flags: "\<And>j. j < length ds \<Longrightarrow>
                ?flags ! j \<longleftrightarrow> (\<exists>k < m. k < j \<and> \<not> ?flags ! k \<and> suppresses thr ds k j)"
    by simp_all
  have m: "m < length ds" using Suc.prems by simp
  show ?case
  proof (cases "?flags ! m")
    case True
    then have same: "nms_state thr ds (Suc m) = nms_state thr ds m"
      by (simp add: nms_state_Suc nms_step_def)
    have "\<And>j. j < length ds \<Longrightarrow>
            ?flags ! j \<longleftrightarrow> (\<exists>k < Suc m. k < j \<and> \<not> ?flags ! k \<and> suppresses thr ds k j)"
      using flags True by (auto simp: less_Suc_eq)
    then show ?thesis
      using len res True by (simp add: same)
  next
    case False
    let ?flags' = "suppress_later thr ds m ?flags"
    have st: "nms_state thr ds (Suc m) = (?flags', ?res @ [ds ! m])"
      using False by (simp add: nms_state_Suc nms_step_def)
    have len': "length ?flags' = length ds"
      by (rule suppress_later_props(1) [OF len])
    have nth': "\<And>k. k < length ds \<Longrightarrow> ?flags' ! k \<longleftrightarrow> ?flags ! k \<or> (m < k \<and> suppresses thr ds m k)"
      by (rule suppress_later_props(2) [OF len])
    have low: "\<And>k. k \<le> m \<Longrightarrow> ?flags' ! k = ?flags ! k"
      using nth' m by auto
    have filt: "filter (\<lambda>k. \<not> ?flags' ! k) [0..<Suc m] = filter (\<lambda>k. \<not> ?flags ! k) [0..<m] @ [m]"
    proof -
      have "filter (\<lambda>k. \<not> ?flags' ! k) [0..<Suc m] = filter (\<lambda>k. \<not> ?flags ! k) [0..<Suc m]"
        by (rule filter_cong) (auto simp: low)
      then show ?thesis using False by simp
    qed
    have res': "?res @ [ds ! m] = map ((!) ds) (filter (\<lambda>k. \<not> ?flags' ! k) [0..<Suc m])"
      by (simp only: filt res map_append list.map)
    have flags': "?flags' ! j \<longleftrightarrow> (\<exists>k < Suc m. k < j \<and> \<not> ?flags' ! k \<and> suppresses thr ds k j)"
      if j: "j < length ds" for j
    proof -
      have "?flags' ! j \<longleftrightarrow> (\<exists>k < m. k < j \<and> \<not> ?flags ! k \<and> suppresses thr ds k j)
                            \<or> (m < j \<and> suppresses thr ds m j)"
        using nth' [OF j] flags [OF j] by simp
      also have "\<dots> \<longleftrightarrow> (\<exists>k < Suc m. k < j \<and> \<not> ?flags ! k \<and> suppresses thr ds k j)"
        using False by (auto simp: less_Suc_eq)
      also have "\<dots> \<longleftrightarrow> (\<exists>k < Suc m. k < j \<and> \<not> ?flags' ! k \<and> suppresses thr ds k j)"
        using low by (metis less_Suc_eq_le)
      finally show ?thesis .
    qed
    show ?thesis
      using len' res' flags' by (simp add: st)
  qed
qed
lemma IOU_commute: "IOU a b = IOU b a"
proof -
  have "rect_area (rect_intersection a b) = rect_area (rect_intersection b a)"
    by (simp add: rect_intersection_def Let_def max.commute min.commute disj_commute)
  then show ?thesis by (simp add: IOU_def Let_def add.commute)
qed

lemma sorted_wrt_filter_both:
  "sorted_wrt R xs \<Longrightarrow> sorted_wrt (\<lambda>a b. R a b \<and> P a \<and> P b) (filter P xs)"
  by (induction xs) auto

lemma sorted_wrt_upt_bounded: "sorted_wrt (\<lambda>a b. a < b \<and> b < n) [0..<n]"
  by (simp add: sorted_wrt_iff_nth_less)

lemma kept_indices_sorted:
  "sorted_wrt (\<lambda>a b. a < b \<and> b < n \<and> P a \<and> P b) (filter P [0..<n])"
  using sorted_wrt_filter_both [OF sorted_wrt_upt_bounded, of n P]
  by (simp add: conj_assoc)

lemma nms_loops_eq:
  "nms_loops thr ds
     = map ((!) ds) (filter (\<lambda>k. \<not> fst (nms_state thr ds (length ds)) ! k) [0..<length ds])"
  using nms_invariant [of "length ds" ds thr]
  by (simp add: nms_loops_def nms_state_def)

lemma nms_flag_iff:
  assumes "j < length ds"
  shows "fst (nms_state thr ds (length ds)) ! j
           \<longleftrightarrow> (\<exists>k < j. \<not> fst (nms_state thr ds (length ds)) ! k \<and> suppresses thr ds k j)"
proof -
  have "fst (nms_state thr ds (length ds)) ! j
           \<longleftrightarrow> (\<exists>k < length ds. k < j \<and> \<not> fst (nms_state thr ds (length ds)) ! k
                  \<and> suppresses thr ds k j)"
    using nms_invariant [of "length ds" ds thr] assms by simp
  also have "\<dots> \<longleftrightarrow> (\<exists>k < j. \<not> fst (nms_state thr ds (length ds)) ! k \<and> suppresses thr ds k j)"
    using assms by (meson less_trans)
  finally show ?thesis .
qed

lemma nms_loops_sorted:
  assumes "sorted_wrt (\<lambda>a b. confidence a \<ge> confidence b) ds"
  shows "sorted_wrt (\<lambda>a b. confidence a \<ge> confidence b) (nms_loops thr ds)"
proof -
  let ?keep = "\<lambda>k. \<not> fst (nms_state thr ds (length ds)) ! k"
  have "sorted_wrt (\<lambda>a b. confidence (ds ! a) \<ge> confidence (ds ! b)) (filter ?keep [0..<length ds])"
  proof (rule sorted_wrt_mono_rel [OF _ kept_indices_sorted [of "length ds" ?keep]])
    fix a b
    assume "a < b \<and> b < length ds \<and> ?keep a \<and> ?keep b"
    then show "confidence (ds ! a) \<ge> confidence (ds ! b)"
      using sorted_wrt_nth_less [OF assms, of a b] by simp
  qed
  then show ?thesis by (simp add: nms_loops_eq sorted_wrt_map)
qed

lemma nms_loops_separated:
  "sorted_wrt (\<lambda>a b. \<not> (class_id a = class_id b \<and> IOU (bbox a) (bbox b) > thr))
     (nms_loops thr ds)"
proof -
  let ?keep = "\<lambda>k. \<not> fst (nms_state thr ds (length ds)) ! k"
  have "sorted_wrt (\<lambda>a b. \<not> suppresses thr ds a b) (filter ?keep [0..<length ds])"
  proof (rule sorted_wrt_mono_rel [OF _ kept_indices_sorted [of "length ds" ?keep]])
    fix a b
    assume ab: "a < b \<and> b < length ds \<and> ?keep a \<and> ?keep b"
    then have "\<not> (\<exists>k < b. ?keep k \<and> suppresses thr ds k b)"
      using nms_flag_iff [of b ds thr] by simp
    with ab show "\<not> suppresses thr ds a b" by blast
  qed
  then show ?thesis
    by (simp add: nms_loops_eq sorted_wrt_map suppresses_def)
qed

lemma nms_loops_subset: "set (nms_loops thr ds) \<subseteq> set ds"
  by (auto simp: nms_loops_eq)

lemma nms_loops_dropped:
  assumes srt: "sorted_wrt (\<lambda>a b. confidence a \<ge> confidence b) ds"
    and d: "d \<in> set ds" and out: "d \<notin> set (nms_loops thr ds)"
  shows "\<exists>k \<in> set (nms_loops thr ds).
           confidence k \<ge> confidence d \<and> class_id k = class_id d
           \<and> IOU (bbox k) (bbox d) > thr"
proof -
  let ?keep = "\<lambda>k. \<not> fst (nms_state thr ds (length ds)) ! k"
  from d obtain j where j: "j < length ds" "ds ! j = d"
    by (auto simp: in_set_conv_nth)
  have kept_in: "ds ! k \<in> set (nms_loops thr ds)" if "k < length ds" "?keep k" for k
    using that by (auto simp: nms_loops_eq)
  have "\<not> ?keep j" using kept_in [of j] j out by auto
  then obtain k where k: "k < j" "?keep k" "suppresses thr ds k j"
    using nms_flag_iff [OF j(1), of thr] by auto
  have "ds ! k \<in> set (nms_loops thr ds)"
    using kept_in [of k] k(1,2) j(1) by simp
  moreover have "confidence (ds ! k) \<ge> confidence d"
    using sorted_wrt_nth_less [OF srt k(1) j(1)] j(2) by simp
  moreover have "class_id (ds ! k) = class_id d" "IOU (bbox (ds ! k)) (bbox d) > thr"
    using k(3) j(2) by (simp_all add: suppresses_def)
  ultimately show ?thesis by blast
qed

lemma sort_by_confidence_sorted:
  "sorted_wrt (\<lambda>a b. confidence a \<ge> confidence b) (sort_by_confidence ds)"
proof -
  have "sorted (map (\<lambda>d. - confidence d) (sort_by_confidence ds))"
    by (simp add: sort_by_confidence_def)
  then show ?thesis
    by (simp add: sorted_wrt_map sorted_wrt_iff_nth_less sorted_iff_nth_mono_less)
qed

lemma sort_by_confidence_set: "set (sort_by_confidence ds) = set ds"
  by (simp add: sort_by_confidence_def)

text \<open>
  C5. The detections that \<open>NonMaxSuppression\<close> returns are in order of descending
  confidence; no earlier one and later one of the same class overlap with an
  intersection over union above the threshold, in either order of the two boxes; every
  returned detection is one of the input; and a detection of the input that is not
  returned shares its class with a returned detection of at least its confidence that
  overlaps it above the threshold. With the three boxes of the scenario and the threshold
  0.5 the first and the third are returned.
\<close>

theorem NonMaxSuppression_sorted_and_separated:
  "sorted_wrt (\<lambda>a b. confidence a \<ge> confidence b) (NonMaxSuppression thr ds)
   \<and> sorted_wrt (\<lambda>a b. \<not> (class_id a = class_id b
                            \<and> (IOU (bbox a) (bbox b) > thr \<or> IOU (bbox b) (bbox a) > thr)))
        (NonMaxSuppression thr ds)
   \<and> set (NonMaxSuppression thr ds) \<subseteq> set ds
   \<and> (\<forall>d \<in> set ds. d \<notin> set (NonMaxSuppression thr ds) \<longrightarrow>
         (\<exists>k \<in> set (NonMaxSuppression thr ds).
            confidence k \<ge> confidence d \<and> class_id k = class_id d
            \<and> IOU (bbox k) (bbox d) > thr))
   \<and> NonMaxSuppression (1 / 2) [det_a, det_b, det_c] = [det_a, det_c]"
proof (cases "ds = []")
  case True
  have "NonMaxSuppression (1 / 2) [det_a, det_b, det_c] = [det_a, det_c]" by code_simp
  with True show ?thesis by (simp add: NonMaxSuppression_def)
next
  case False
  let ?s = "sort_by_confidence ds"
  have eq: "NonMaxSuppression thr ds = nms_loops thr ?s"
    using False by (simp add: NonMaxSuppression_def)
  have a: "sorted_wrt (\<lambda>a b. confidence a \<ge> confidence b) (nms_loops thr ?s)"
    by (rule nms_loops_sorted [OF sort_by_confidence_sorted])
  have b: "sorted_wrt (\<lambda>a b. \<not> (class_id a = class_id b
                            \<and> (IOU (bbox a) (bbox b) > thr \<or> IOU (bbox b) (bbox a) > thr)))
        (nms_loops thr ?s)"
  proof (rule sorted_wrt_mono_rel [OF _ nms_loops_separated [of thr ?s]])
    fix x y
    assume "\<not> (class_id x = class_id y \<and> IOU (bbox x) (bbox y) > thr)"
    then show "\<not> (class_id x = class_id y
                 \<and> (IOU (bbox x) (bbox y) > thr \<or> IOU (bbox y) (bbox x) > thr))"
      using IOU_commute [of "bbox x" "bbox y"] by auto
  qed
  have c: "set (nms_loops thr ?s) \<subseteq> set ds"
    using nms_loops_subset [of thr ?s] by (simp add: sort_by_confidence_set)
  have d: "\<forall>d \<in> set ds. d \<notin> set (nms_loops thr ?s) \<longrightarrow>
         (\<exists>k \<in> set (nms_loops thr ?s).
            confidence k \<ge> confidence d \<and> class_id k = class_id d
            \<and> IOU (bbox k) (bbox d) > thr)"
    using nms_loops_dropped [OF sort_by_confidence_sorted, of _ ds thr]
    by (simp add: sort_by_confidence_set)
  have e: "NonMaxSuppression (1 / 2) [det_a, det_b, det_c] = [det_a, det_c]" by code_simp
  from a b c d e show ?thesis by (simp only: eq)
qed

theorem NonMaxSuppression_sorted_and_separated_witness:
  "NonMaxSuppression (1 / 2) [det_a, det_b, det_c] = [det_a, det_c]
   \<and> det_b \<in> set [det_a, det_b, det_c] \<and> det_b \<notin> set [det_a, det_c]
   \<and> confidence det_a \<ge> confidence det_b \<and> class_id det_a = class_id det_b
   \<and> IOU (bbox det_a) (bbox det_b) > 1 / 2
   \<and> \<not> IOU (bbox det_a) (bbox det_c) > 1 / 2"
proof -
  have ne: "det_b \<noteq> det_a" "det_b \<noteq> det_c"
    by (simp_all add: det_a_def det_b_def det_c_def)
  have iab: "IOU (bbox det_a) (bbox det_b) = 81 / 119"
    by (simp add: IOU_def rect_intersection_def rect_area_def Let_def det_a_def det_b_def
        box_def float_epsilon_def)
  have iac: "IOU (bbox det_a) (bbox det_c) = 0"
    by (simp add: IOU_def rect_intersection_def rect_area_def Let_def det_a_def det_c_def
        box_def float_epsilon_def)
  have cf: "confidence det_a \<ge> confidence det_b" "class_id det_a = class_id det_b"
    by (simp_all add: det_a_def det_b_def)
  show ?thesis
    using NonMaxSuppression_sorted_and_separated [of "1 / 2" "[det_a, det_b, det_c]"]
      ne iab iac cf
    by simp
qed




text \<open>
  C10. An empty image, an image whose channel count is not 3, or a detector without a
  session: \<open>Detect\<close> returns the empty list, leaves the detector (and with it the pool) as
  it was, and makes no call at all, neither for a buffer nor to the runtime.
\<close>

theorem Detect_rejects_bad_input:
  assumes "mat_empty img \<or> mat_channels img \<noteq> 3 \<or> \<not> session_present det"
  shows "Detect env det img = (Returns [], det, [])"
  using assms by (auto simp: Detect_def)

theorem Detect_rejects_bad_input_witness:
  "mat_channels ((image_of_size 1280 720)\<lparr>mat_channels := 1\<rparr>) \<noteq> 3
   \<and> Detect env_no_elements detector_ready ((image_of_size 1280 720)\<lparr>mat_channels := 1\<rparr>)
       = (Returns [], detector_ready, [])
   \<and> \<not> session_present (detector_ready\<lparr>session_present := False\<rparr>)
   \<and> Detect env_no_elements (detector_ready\<lparr>session_present := False\<rparr>) (image_of_size 1280 720)
       = (Returns [], detector_ready\<lparr>session_present := False\<rparr>, [])
   \<and> mat_empty ((image_of_size 0 0)\<lparr>mat_empty := True\<rparr>)
   \<and> Detect env_no_elements detector_ready ((image_of_size 0 0)\<lparr>mat_empty := True\<rparr>)
       = (Returns [], detector_ready, [])"
proof -
  have a: "mat_channels ((image_of_size 1280 720)\<lparr>mat_channels := 1\<rparr>) \<noteq> 3"
    and b: "\<not> session_present (detector_ready\<lparr>session_present := False\<rparr>)"
    and c: "mat_empty ((image_of_size 0 0)\<lparr>mat_empty := True\<rparr>)"
    by simp_all
  show ?thesis
    using a b c
      Detect_rejects_bad_input [of "(image_of_size 1280 720)\<lparr>mat_channels := 1\<rparr>"
        detector_ready env_no_elements]
      Detect_rejects_bad_input [of "image_of_size 1280 720"
        "detector_ready\<lparr>session_present := False\<rparr>" env_no_elements]
      Detect_rejects_bad_input [of "(image_of_size 0 0)\<lparr>mat_empty := True\<rparr>"
        detector_ready env_no_elements]
    by simp
qed

text \<open>
  C8 at an input where the code departs from it. The detector is ready and its pool is
  free; the image is a 1280 by 720 colour image; the runtime answers with one output of
  shape [1, 0, 6]. \<open>Detect\<close> takes the pool's input buffer, runs the inference, finds that
  the output holds no element and returns the empty list through the early
  \<open>return {}\<close>: \<open>ReleaseBuffers\<close> is not called and the input buffer stays marked in use.
  The same happens when the runtime throws. The next call finds the buffer in use and
  takes the thread-local buffer.
\<close>

theorem Detect_early_return_keeps_buffer:
  "fst (Detect env_no_elements detector_ready (image_of_size 1280 720)) = Returns []
   \<and> memory_pool (fst (snd (Detect env_no_elements detector_ready (image_of_size 1280 720))))
       = Some \<lparr>input_buffer_in_use = True, output_buffer_in_use = False\<rparr>
   \<and> snd (snd (Detect env_no_elements detector_ready (image_of_size 1280 720)))
       = [TookBuffer PoolInputBuffer, RanInference]
   \<and> fst (Detect env_run_throws detector_ready (image_of_size 1280 720))
       = Throws ''invalid input shape''
   \<and> memory_pool (fst (snd (Detect env_run_throws detector_ready (image_of_size 1280 720))))
       = Some \<lparr>input_buffer_in_use = True, output_buffer_in_use = False\<rparr>
   \<and> fst (GetInputBuffer
            (fst (snd (Detect env_no_elements detector_ready (image_of_size 1280 720)))))
       = ThreadLocalFallback"
  by (simp add: Detect_def GetInputBuffer_def pool_GetInputBuffer_def detector_ready_def
      env_no_elements_def env_run_throws_def image_of_size_def Let_def)

theorem Detect_early_return_keeps_buffer_witness:
  "memory_pool (fst (snd (Detect env_no_elements detector_ready (image_of_size 1280 720))))
     \<noteq> Some \<lparr>input_buffer_in_use = False, output_buffer_in_use = False\<rparr>"
  using Detect_early_return_keeps_buffer by simp

text \<open>
  A call made while the pool's input buffer is in use takes the thread-local buffer and
  goes on to the inference.
\<close>

lemma Detect_falls_back_when_in_use:
  assumes "\<not> mat_empty img" and "mat_channels img = 3" and "session_present det"
    and "memory_pool det = Some pool" and "input_buffer_in_use pool"
    and "\<not> input_data_null env"
  shows "take 2 (snd (snd (Detect env det img))) = [TookBuffer ThreadLocalFallback, RanInference]"
  using assms
  by (simp add: Detect_def GetInputBuffer_def pool_GetInputBuffer_def Let_def
      split: sum.splits)

subsection \<open>Calibrator\<close>

declare focal_length_loop.simps [simp del]

lemma arctan_sqrt_3: "arctan (sqrt 3) = pi / 3"
proof -
  have "arctan (tan (pi / 3)) = pi / 3"
    by (rule arctan_tan) (simp_all add: field_simps)
  then show ?thesis by (simp add: tan_60)
qed

lemma angles_60:
  "computed_camera_angles env_camera_turned_60 (- sqrt 3, 0, 1) ball_at_centre = (60, 0)"
  by (simp add: computed_camera_angles_def env_camera_turned_60_def env_calibration_def
      ball_at_centre_def std_round_def v0_def v1_def v2_def Let_def arctan_minus arctan_sqrt_3)

lemma stage_60:
  "average_focal_length_stage env_camera_turned_60 (rig_custom (- sqrt 3, 0, 1)) kGsCamera1
     = Some (6, (- sqrt 3, 0, 1), picture_with_ball)"
  by (simp add: average_focal_length_stage_def RetrieveAutoCalibrationConstants_def
      rig_custom_def env_camera_turned_60_def env_calibration_def Let_def
      kMaxReasonableRadius_def static_cast_int_def
      focal_length_loop.simps [of _ _ _ _ 0] focal_length_loop.simps [of _ _ _ _ 1]
      DetermineFocalLengthForAutoCalibration_def picture_with_ball_def ball_at_centre_def)

text \<open>
  C7. When the average focal length lies outside [2, 50] mm, and when one of the two
  computed angles exceeds 45 degrees in absolute value, \<open>AutoCalibrateCamera\<close> returns
  false and has had no effect: nothing is set in the configuration tree, nothing is put to
  the web collaborator, no backup is made and the file is not written. With the ball of
  the rig placed so that the recovered angle is 60 degrees this is what happens.
\<close>

theorem AutoCalibrateCamera_rejects_without_writing:
  "(average_focal_length_stage env k cam = Some (average_focal_length, position, color_image)
      \<and> (average_focal_length < 2 \<or> average_focal_length > 50)
      \<longrightarrow> AutoCalibrateCamera env k cam = (False, []))
   \<and> (average_focal_length_stage env k cam = Some (average_focal_length, position, color_image)
      \<and> (\<bar>fst (computed_camera_angles env position (hd (return_balls (angles_GetBall env))))\<bar> > 45
         \<or> \<bar>snd (computed_camera_angles env position (hd (return_balls (angles_GetBall env))))\<bar> > 45)
      \<longrightarrow> DetermineCameraAngles env position color_image = None
          \<and> AutoCalibrateCamera env k cam = (False, []))
   \<and> fst (computed_camera_angles env_camera_turned_60 (- sqrt 3, 0, 1) ball_at_centre) = 60
   \<and> AutoCalibrateCamera env_camera_turned_60 (rig_custom (- sqrt 3, 0, 1)) kGsCamera1
       = (False, [])"
proof -
  have focal: "AutoCalibrateCamera env k cam = (False, [])"
    if "average_focal_length_stage env k cam = Some (average_focal_length, position, color_image)"
      and "average_focal_length < 2 \<or> average_focal_length > 50"
    using that by (auto simp: AutoCalibrateCamera_def kMinFocalLength_def kMaxFocalLength_def)
  have angle_none: "DetermineCameraAngles env position color_image = None"
    if "\<bar>fst (computed_camera_angles env position (hd (return_balls (angles_GetBall env))))\<bar> > 45
         \<or> \<bar>snd (computed_camera_angles env position (hd (return_balls (angles_GetBall env))))\<bar> > 45"
    using that by (auto simp: DetermineCameraAngles_def kMaxReasonableAngle_def Let_def)
  have angle: "AutoCalibrateCamera env k cam = (False, [])"
    if "average_focal_length_stage env k cam = Some (average_focal_length, position, color_image)"
      and "DetermineCameraAngles env position color_image = None"
    using that by (simp add: AutoCalibrateCamera_def)
  have a60: "fst (computed_camera_angles env_camera_turned_60 (- sqrt 3, 0, 1) ball_at_centre) = 60"
    by (simp add: angles_60)
  have gb: "hd (return_balls (angles_GetBall env_camera_turned_60)) = ball_at_centre"
    by (simp add: env_camera_turned_60_def env_calibration_def)
  have "DetermineCameraAngles env_camera_turned_60 (- sqrt 3, 0, 1) picture_with_ball = None"
    by (simp add: DetermineCameraAngles_def kMaxReasonableAngle_def Let_def gb angles_60
        picture_with_ball_def)
  then have ex: "AutoCalibrateCamera env_camera_turned_60 (rig_custom (- sqrt 3, 0, 1)) kGsCamera1
       = (False, [])"
    by (simp add: AutoCalibrateCamera_def stage_60 kMinFocalLength_def kMaxFocalLength_def)
  from focal angle_none angle a60 ex show ?thesis by blast
qed

theorem AutoCalibrateCamera_rejects_without_writing_witness:
  "average_focal_length_stage env_camera_turned_60 (rig_custom (- sqrt 3, 0, 1)) kGsCamera1
     = Some (6, (- sqrt 3, 0, 1), picture_with_ball)
   \<and> \<bar>fst (computed_camera_angles env_camera_turned_60 (- sqrt 3, 0, 1)
             (hd (return_balls (angles_GetBall env_camera_turned_60))))\<bar> > 45
   \<and> DetermineCameraAngles env_camera_turned_60 (- sqrt 3, 0, 1) picture_with_ball = None
   \<and> AutoCalibrateCamera env_camera_turned_60 (rig_custom (- sqrt 3, 0, 1)) kGsCamera1
       = (False, [])"
proof -
  have gb: "hd (return_balls (angles_GetBall env_camera_turned_60)) = ball_at_centre"
    by (simp add: env_camera_turned_60_def env_calibration_def)
  have big: "\<bar>fst (computed_camera_angles env_camera_turned_60 (- sqrt 3, 0, 1)
             (hd (return_balls (angles_GetBall env_camera_turned_60))))\<bar> > 45"
    by (simp add: gb angles_60)
  show ?thesis
    using AutoCalibrateCamera_rejects_without_writing
      [of env_camera_turned_60 "rig_custom (- sqrt 3, 0, 1)" kGsCamera1 6 "(- sqrt 3, 0, 1)"
        picture_with_ball]
      stage_60 big
    by blast
qed

text \<open>
  The loop gives up at the first failed sample that takes the number of failures above
  the tolerated count.
\<close>

lemma focal_length_loop_gives_up:
  assumes "i < number_attempts" and "take_ok (pictures env taken)"
    and "DetermineFocalLengthForAutoCalibration env position (pictures env taken) < 0"
    and "number_failures + 1 > kNumberOfCalibrationFailuresToTolerate k"
  shows "focal_length_loop env k position number_attempts i taken number_failures
           number_samples total_so_far = None"
  using assms
  by (simp add: focal_length_loop.simps
      [of env k position number_attempts i taken number_failures number_samples total_so_far])

text \<open>
  C2 at an input where the code departs from it. One picture is asked for and two
  failures are tolerated. On the first picture no ball is found, so the sample is -1; on
  the second the focal length is 7. The failed sample is counted and added like a valid
  one: the loop ends with two samples and the sum 6, the average is 3 and not 7, it passes
  the range check, and 3 is what is written to the configuration.
\<close>

theorem focal_length_average_counts_failed_sample:
  "DetermineFocalLengthForAutoCalibration env_first_picture_misses (0, 0, 1)
       (pictures env_first_picture_misses 0) = - 1
   \<and> DetermineFocalLengthForAutoCalibration env_first_picture_misses (0, 0, 1)
       (pictures env_first_picture_misses 1) = 7
   \<and> focal_length_loop env_first_picture_misses (rig_custom (0, 0, 1)) (0, 0, 1) 1 0 0 0 0 0
       = Some (6, 2, 2)
   \<and> average_focal_length_stage env_first_picture_misses (rig_custom (0, 0, 1)) kGsCamera1
       = Some (3, (0, 0, 1), picture_with_ball)
   \<and> fst (AutoCalibrateCamera env_first_picture_misses (rig_custom (0, 0, 1)) kGsCamera1)
   \<and> hd (snd (AutoCalibrateCamera env_first_picture_misses (rig_custom (0, 0, 1)) kGsCamera1))
       = SetTreeValue_focal_length ''gs_config.cameras.kCamera1FocalLength'' 3"
proof -
  have p0: "pictures env_first_picture_misses 0 = picture_without_ball"
    and p1: "pictures env_first_picture_misses (Suc 0) = picture_with_ball"
    by (simp_all add: env_first_picture_misses_def env_calibration_def)
  have f0: "DetermineFocalLengthForAutoCalibration env_first_picture_misses (0, 0, 1)
              picture_without_ball = - 1"
    by (simp add: DetermineFocalLengthForAutoCalibration_def picture_without_ball_def)
  have f1: "DetermineFocalLengthForAutoCalibration env_first_picture_misses (0, 0, 1)
              picture_with_ball = 7"
    by (simp add: DetermineFocalLengthForAutoCalibration_def picture_with_ball_def
        ball_at_centre_def env_first_picture_misses_def env_calibration_def)
  have tol: "kNumberOfCalibrationFailuresToTolerate (rig_custom (0, 0, 1)) = 2"
    by (simp add: rig_custom_def)
  have ok: "take_ok picture_without_ball" "take_ok picture_with_ball"
    by (simp_all add: picture_without_ball_def picture_with_ball_def)
  have l2: "focal_length_loop env_first_picture_misses (rig_custom (0, 0, 1)) (0, 0, 1) 1 1
              (Suc (Suc 0)) 1 2 6 = Some (6, 2, 2)"
    by (simp add: focal_length_loop.simps [of _ _ _ 1 1])
  have l1: "focal_length_loop env_first_picture_misses (rig_custom (0, 0, 1)) (0, 0, 1) 1 0
              (Suc 0) 1 1 (- 1) = Some (6, 2, 2)"
    using l2 by (simp add: focal_length_loop.simps [of _ _ _ 1 0 "Suc 0"] p1 f1 ok)
  have l0: "focal_length_loop env_first_picture_misses (rig_custom (0, 0, 1)) (0, 0, 1) 1 0 0 0 0 0
              = Some (6, 2, 2)"
    using l1 by (simp add: focal_length_loop.simps [of _ _ _ 1 0 0] p0 f0 ok tol)
  have r: "RetrieveAutoCalibrationConstants (rig_custom (0, 0, 1)) kGsCamera1 = Some (0, 0, 1)"
    by (simp add: RetrieveAutoCalibrationConstants_def rig_custom_def)
  have n: "kNumberPicturesForFocalLengthAverage (rig_custom (0, 0, 1)) = 1"
    "kMaxRadiusOffset (rig_custom (0, 0, 1)) = 10"
    by (simp_all add: rig_custom_def)
  have e: "\<not> image_processor_null env_first_picture_misses"
    "GetDistance env_first_picture_misses = (\<lambda>p. 1)"
    "GetExpectedBallRadiusPixels env_first_picture_misses = (\<lambda>d. 50)"
    by (simp_all add: env_first_picture_misses_def env_calibration_def)
  have st: "average_focal_length_stage env_first_picture_misses (rig_custom (0, 0, 1)) kGsCamera1
              = Some (3, (0, 0, 1), picture_with_ball)"
    by (simp add: average_focal_length_stage_def r n e l0 p1 Let_def
        kMaxReasonableRadius_def static_cast_int_def)
  have ang: "DetermineCameraAngles env_first_picture_misses (0, 0, 1) picture_with_ball
              = Some (0, 0)"
    by (simp add: DetermineCameraAngles_def computed_camera_angles_def kMaxReasonableAngle_def
        Let_def picture_with_ball_def env_first_picture_misses_def env_calibration_def
        ball_at_centre_def std_round_def v0_def v1_def v2_def)
  have acc: "AutoCalibrateCamera env_first_picture_misses (rig_custom (0, 0, 1)) kGsCamera1
      = (True, [SetTreeValue_focal_length ''gs_config.cameras.kCamera1FocalLength'' 3,
                SetTreeValue_angles ''gs_config.cameras.kCamera1Angles'' (0, 0),
                Web_UpdateCalibration_focal_length ''gs_config.cameras.kCamera1FocalLength'' 3,
                Web_UpdateCalibration_angles ''gs_config.cameras.kCamera1Angles'' [0, 0],
                BackupConfigFile, WriteTreeToFile])"
    by (simp add: AutoCalibrateCamera_def st ang kMinFocalLength_def kMaxFocalLength_def
        camera_number_string_def Let_def)
       (simp add: env_first_picture_misses_def env_calibration_def)
  show ?thesis
    using p0 p1 f0 f1 l0 st acc by simp
qed

theorem focal_length_average_counts_failed_sample_witness:
  "average_focal_length_stage env_first_picture_misses (rig_custom (0, 0, 1)) kGsCamera1
     \<noteq> Some (7, (0, 0, 1), picture_with_ball)"
  using focal_length_average_counts_failed_sample by simp

subsection \<open>Trajectory calculator\<close>

lemma trajectory_metrics_keeps:
  "calculation_successful (trajectory_metrics lib landing trajectory r) = calculation_successful r"
  "carry_distance_yards (trajectory_metrics lib landing trajectory r) = carry_distance_yards r"
  "error_message (trajectory_metrics lib landing trajectory r) = error_message r"
  by (simp_all add: trajectory_metrics_def Let_def split: option.splits)

text \<open>
  What \<open>abs\<close> on the converted argument tests: the bound \<open>n\<close> is exceeded only from
  \<open>n + 1\<close> on.
\<close>

lemma abs_int_le_iff:
  assumes "0 \<le> n"
  shows "real_of_int (abs_int x) \<le> real_of_int n \<longleftrightarrow> \<bar>x\<bar> < real_of_int n + 1"
proof (cases "0 \<le> x")
  case True
  then have a: "abs_int x = \<lfloor>x\<rfloor>"
    by (simp add: abs_int_def static_cast_int_def)
  have "real_of_int \<lfloor>x\<rfloor> \<le> real_of_int n \<longleftrightarrow> \<lfloor>x\<rfloor> \<le> n"
    by (rule of_int_le_iff)
  also have "\<dots> \<longleftrightarrow> x < real_of_int n + 1" by linarith
  finally show ?thesis using True by (simp add: a)
next
  case False
  then have a: "abs_int x = - \<lceil>x\<rceil>"
    by (simp add: abs_int_def static_cast_int_def)
  have "real_of_int (- \<lceil>x\<rceil>) \<le> real_of_int n \<longleftrightarrow> - \<lceil>x\<rceil> \<le> n"
    by (rule of_int_le_iff)
  also have "\<dots> \<longleftrightarrow> - x < real_of_int n + 1" by linarith
  finally have "real_of_int (- \<lceil>x\<rceil>) \<le> real_of_int n \<longleftrightarrow> - x < real_of_int n + 1" .
  moreover have "\<bar>x\<bar> = - x" using False by simp
  ultimately show ?thesis by (simp only: a)
qed

text \<open>
  What \<open>validateInput\<close> accepts, for angles and spins that can be converted to \<open>int\<close>:
  the side angle may reach up to, but not including, 46 degrees, and the spins 10001 rpm.
\<close>

lemma validateInput_iff:
  assumes "\<bar>horizontal_launch_angle_deg input\<bar> < 2147483648"
    and "\<bar>backspin_rpm input\<bar> < 2147483648" and "\<bar>sidespin_rpm input\<bar> < 2147483648"
  shows "validateInput input \<longleftrightarrow>
     50 \<le> initial_velocity_mph input \<and> initial_velocity_mph input \<le> 250
     \<and> - 10 \<le> vertical_launch_angle_deg input \<and> vertical_launch_angle_deg input \<le> 60
     \<and> \<bar>horizontal_launch_angle_deg input\<bar> < 46
     \<and> \<bar>backspin_rpm input\<bar> < 10001 \<and> \<bar>sidespin_rpm input\<bar> < 10001"
proof -
  have h: "real_of_int (abs_int x) > 45 \<longleftrightarrow> \<not> \<bar>x\<bar> < 46" for x
    using abs_int_le_iff [of 45 x] by auto
  have r: "real_of_int (abs_int x) > 10000 \<longleftrightarrow> \<not> \<bar>x\<bar> < 10001" for x
    using abs_int_le_iff [of 10000 x] by auto
  show ?thesis
    unfolding validateInput_def MIN_VELOCITY_MPH_def MAX_VELOCITY_MPH_def
      MIN_LAUNCH_ANGLE_DEG_def MAX_LAUNCH_ANGLE_DEG_def MAX_SPIN_RPM_def h r
    by auto
qed

text \<open>
  An input that \<open>validateInput\<close> rejects gives the result "Invalid input parameters" with
  carry distance 0, and nothing is thrown. An input that it accepts is handed to the
  physics library: when a run of the library throws, the result is unsuccessful with the
  text of the exception after the prefix; when both runs return, the result is successful
  and the carry distance is the forward coordinate of the landing point.
\<close>

lemma calculateCarry_rejected:
  assumes "\<not> validateInput input"
  shows "\<not> calculation_successful (calculateCarry lib r0 input)"
    and "error_message (calculateCarry lib r0 input) = ''Invalid input parameters''"
    and "carry_distance_yards (calculateCarry lib r0 input) = 0"
  using assms by (simp_all add: calculateCarry_def)

lemma calculateCarry_library_throws:
  assumes "validateInput input"
    and "runSimulationLanding lib (to_golfBall (applyDefaults input))
           (to_atmosphericData (applyDefaults input)) = Inl what
         \<or> (runSimulationLanding lib (to_golfBall (applyDefaults input))
              (to_atmosphericData (applyDefaults input)) = Inr landing
            \<and> runSimulation lib (to_golfBall (applyDefaults input))
                (to_atmosphericData (applyDefaults input)) = Inl what)"
  shows "\<not> calculation_successful (calculateCarry lib r0 input)"
    and "error_message (calculateCarry lib r0 input) = ''libshotscope calculation error: '' @ what"
    and "carry_distance_yards (calculateCarry lib r0 input) = 0"
  using assms by (auto simp: calculateCarry_def Let_def)

lemma calculateCarry_library_returns:
  assumes "validateInput input"
    and "runSimulationLanding lib (to_golfBall (applyDefaults input))
           (to_atmosphericData (applyDefaults input)) = Inr landing"
    and "runSimulation lib (to_golfBall (applyDefaults input))
           (to_atmosphericData (applyDefaults input)) = Inr trajectory"
  shows "calculation_successful (calculateCarry lib r0 input)"
    and "carry_distance_yards (calculateCarry lib r0 input) = v3_1 landing"
    and "error_message (calculateCarry lib r0 input)
           = ''Calculated using libshotscope physics (Prof. Alan Nathan research)''"
  using assms by (simp_all add: calculateCarry_def Let_def trajectory_metrics_keeps)

text \<open>
  C9 at an input where the code departs from it. The shot has 150 mph, 12 degrees up and
  45.5 degrees to the side, which exceeds 45 degrees in absolute value. \<open>abs\<close> is applied
  to the angle converted to \<open>int\<close>, 45, which does not exceed 45.0: \<open>validateInput\<close>
  accepts the shot, \<open>calculateCarry\<close> runs the physics library on it and returns a
  successful result with the carry distance the library gave, 250 yards, where the
  result "Invalid input parameters" with carry distance 0 was due. In the same way a
  backspin of 10000.9 rpm and a sidespin of -10000.9 rpm are accepted.

  The rest is as the claim has it: 46 degrees to either side, a spin of 10001 rpm and a
  speed of 300 mph are rejected with the result "Invalid input parameters" and carry
  distance 0, and an accepted shot on which the library throws gives an unsuccessful
  result with the library's text.
\<close>

theorem calculateCarry_accepts_truncated_angle:
  "\<bar>horizontal_launch_angle_deg shot_45_5_deg\<bar> > 45
   \<and> validateInput shot_45_5_deg
   \<and> calculateCarry lib_250_yards result_garbage shot_45_5_deg
       = result_garbage\<lparr>carry_distance_yards := 250, calculation_successful := True,
           error_message := ''Calculated using libshotscope physics (Prof. Alan Nathan research)''\<rparr>
   \<and> validateInput (shot_150mph\<lparr>backspin_rpm := 100009 / 10\<rparr>)
   \<and> validateInput (shot_150mph\<lparr>sidespin_rpm := - 100009 / 10\<rparr>)
   \<and> \<not> validateInput (shot_150mph\<lparr>horizontal_launch_angle_deg := 46\<rparr>)
   \<and> \<not> validateInput (shot_150mph\<lparr>horizontal_launch_angle_deg := - 46\<rparr>)
   \<and> \<not> validateInput (shot_150mph\<lparr>backspin_rpm := 10001\<rparr>)
   \<and> \<not> validateInput (shot_150mph\<lparr>sidespin_rpm := - 10001\<rparr>)
   \<and> \<not> validateInput (shot_150mph\<lparr>vertical_launch_angle_deg := 61\<rparr>)
   \<and> \<not> validateInput shot_300mph
   \<and> calculateCarry lib_250_yards result_garbage shot_300mph
       = result_garbage\<lparr>carry_distance_yards := 0, calculation_successful := False,
           error_message := ''Invalid input parameters''\<rparr>
   \<and> validateInput shot_150mph
   \<and> calculateCarry lib_throwing result_garbage shot_150mph
       = result_garbage\<lparr>carry_distance_yards := 0, calculation_successful := False,
           error_message := ''libshotscope calculation error: no convergence''\<rparr>"
proof -
  have a1: "\<bar>horizontal_launch_angle_deg shot_45_5_deg\<bar> > 45"
    and a2: "validateInput shot_45_5_deg"
    and a3: "calculateCarry lib_250_yards result_garbage shot_45_5_deg
       = result_garbage\<lparr>carry_distance_yards := 250, calculation_successful := True,
           error_message := ''Calculated using libshotscope physics (Prof. Alan Nathan research)''\<rparr>"
    by code_simp+
  have b1: "validateInput (shot_150mph\<lparr>backspin_rpm := 100009 / 10\<rparr>)"
    and b2: "validateInput (shot_150mph\<lparr>sidespin_rpm := - 100009 / 10\<rparr>)"
    by code_simp+
  have c1: "\<not> validateInput (shot_150mph\<lparr>horizontal_launch_angle_deg := 46\<rparr>)"
    and c2: "\<not> validateInput (shot_150mph\<lparr>horizontal_launch_angle_deg := - 46\<rparr>)"
    and c3: "\<not> validateInput (shot_150mph\<lparr>backspin_rpm := 10001\<rparr>)"
    and c4: "\<not> validateInput (shot_150mph\<lparr>sidespin_rpm := - 10001\<rparr>)"
    and c5: "\<not> validateInput (shot_150mph\<lparr>vertical_launch_angle_deg := 61\<rparr>)"
    and c6: "\<not> validateInput shot_300mph"
    by code_simp+
  have d1: "calculateCarry lib_250_yards result_garbage shot_300mph
       = result_garbage\<lparr>carry_distance_yards := 0, calculation_successful := False,
           error_message := ''Invalid input parameters''\<rparr>"
    by code_simp
  have e1: "validateInput shot_150mph"
    and e2: "calculateCarry lib_throwing result_garbage shot_150mph
       = result_garbage\<lparr>carry_distance_yards := 0, calculation_successful := False,
           error_message := ''libshotscope calculation error: no convergence''\<rparr>"
    by code_simp+
  from a1 a2 a3 b1 b2 c1 c2 c3 c4 c5 c6 d1 e1 e2 show ?thesis
    by (intro conjI)
qed

theorem calculateCarry_accepts_truncated_angle_witness:
  "\<not> (\<bar>horizontal_launch_angle_deg shot_45_5_deg\<bar> > 45
       \<longrightarrow> \<not> calculation_successful (calculateCarry lib_250_yards result_garbage shot_45_5_deg)
           \<and> carry_distance_yards (calculateCarry lib_250_yards result_garbage shot_45_5_deg) = 0)"
proof -
  have "calculation_successful (result_garbage\<lparr>carry_distance_yards := 250,
           calculation_successful := True,
           error_message := ''Calculated using libshotscope physics (Prof. Alan Nathan research)''\<rparr>)"
    by simp
  with calculateCarry_accepts_truncated_angle show ?thesis by simp
qed

end
